theory Spec2Isabelle
  imports Complex_Main "HOL-Library.AList"
begin

section \<open>HeartSense cardiac monitoring simulator: the simulation hook\<close>

text \<open>
  A shallow embedding of \<^verbatim>\<open>useCardiacDataSimulator.ts\<close> (the hook that \<^verbatim>\<open>App.tsx\<close>
  imports), of the constants it uses from \<^verbatim>\<open>constants.ts\<close> and of the types of
  \<^verbatim>\<open>types.ts\<close>.

  Conventions of the model:
  \<^item> a JavaScript \<^verbatim>\<open>number\<close> is a \<^typ>\<open>real\<close> (floating point rounding is not
    modelled); array indices and the sample counter are \<^typ>\<open>nat\<close>; the two places
    where the code stores \<^verbatim>\<open>Infinity\<close> use the type \<open>jsnum\<close>;
  \<^item> an optional field or an \<^verbatim>\<open>undefined\<close> value is an \<^typ>\<open>'a option\<close>;
  \<^item> a \<^verbatim>\<open>Map<string, PatientSpecificSimData>\<close> is an association list in insertion
    order, \<^verbatim>\<open>get\<close> is \<^const>\<open>map_of\<close>, \<^verbatim>\<open>set\<close> is \<^const>\<open>AList.update\<close> (an existing
    key keeps its place, a new key goes to the end) and \<^verbatim>\<open>delete\<close> is
    \<^const>\<open>AList.delete\<close>; a JavaScript Map holds every key once, which for the list
    is \<open>distinct (map fst m)\<close>;
  \<^item> \<^verbatim>\<open>Math.random()\<close>, \<^verbatim>\<open>Date.now()\<close> and \<^verbatim>\<open>crypto.randomUUID()\<close> are inputs of
    the functions that call them;
  \<^item> every React state updater \<^verbatim>\<open>setX(prev => ...)\<close> is the function from the
    previous to the next state that the source passes.
\<close>

subsection \<open>Types (types.ts)\<close>

datatype CardiacRhythm =
    NSR
  | VT
  | SINUS_TACHYCARDIA
  | SINUS_BRADYCARDIA
  | VENTRICULAR_FIBRILLATION
  | TORSADES_DE_POINTES
  | FIRST_DEGREE_AV_BLOCK
  | SECOND_DEGREE_AV_BLOCK_TYPE_I
  | SECOND_DEGREE_AV_BLOCK_TYPE_II
  | THIRD_DEGREE_AV_BLOCK
  | ATRIAL_FIBRILLATION
  | ATRIAL_FLUTTER
  | SVT
  | ASYSTOLE

datatype PacerMode = Off | Demand

text \<open>
  \<^verbatim>\<open>PacerSettings\<close> and \<^verbatim>\<open>Partial<PacerSettings>\<close> share one record: the update
  operation spreads a partial object over \<^verbatim>\<open>p.pacerSettings!\<close>, so at run time a field
  may be missing.
\<close>

record PacerSettings =
  mode :: "PacerMode option"
  rate :: "real option"

datatype PatientCodeStatus = DNR | DNI | NC | CCO | FULL_CODE

datatype AlertSeverity = WARNING | CRITICAL

record MetricThresholds =
  lowWarning :: "real option"
  lowCritical :: "real option"
  highWarning :: "real option"
  highCritical :: "real option"

text \<open>
  The \<^verbatim>\<open>spo2\<close> entry is declared as \<^verbatim>\<open>Pick<MetricThresholds, 'lowWarning' | 'lowCritical'>\<close>;
  it is the same record with the two high fields absent.
\<close>

record PersonalizedAlertThresholds =
  heartRateT :: "MetricThresholds option"
  bloodPressureSystolicT :: "MetricThresholds option"
  bloodPressureDiastolicT :: "MetricThresholds option"
  spo2T :: "MetricThresholds option"
  temperatureT :: "MetricThresholds option"
  respiratoryRateT :: "MetricThresholds option"

record Patient =
  idP :: string
  name :: string
  age :: real
  gender :: string
  room :: string
  notesP :: "string option"
  diagnosis :: "string option"
  personalizedThresholds :: "PersonalizedAlertThresholds option"
  activeRhythm :: CardiacRhythm
  pacerSettings :: "PacerSettings option"
  noiseSignatures :: "string list option"
  codeStatus :: "PatientCodeStatus option"
  source :: "string option"

text \<open>\<^verbatim>\<open>Partial<Patient>\<close>: \<open>Some v\<close> is a key that is present with value \<open>v\<close>.\<close>

record PatientDetails =
  idD :: "string option"
  nameD :: "string option"
  ageD :: "real option"
  genderD :: "string option"
  roomD :: "string option"
  notesD :: "string option option"
  diagnosisD :: "string option option"
  personalizedThresholdsD :: "PersonalizedAlertThresholds option option"
  activeRhythmD :: "CardiacRhythm option"
  pacerSettingsD :: "PacerSettings option option"
  noiseSignaturesD :: "string list option option"
  codeStatusD :: "PatientCodeStatus option option"
  sourceD :: "string option option"

record BloodPressure =
  systolic :: real
  diastolic :: real

record CardiacMetrics =
  heartRate :: real
  bloodPressure :: BloodPressure
  spo2 :: real
  temperature :: real
  respiratoryRate :: real

record ECGDataPoint =
  timeE :: nat
  valueE :: real

record Alert =
  idA :: string
  message :: string
  severity :: AlertSeverity
  timestamp :: real
  metric :: string

record LoggedVitalSign =
  timestampL :: real
  metricsL :: CardiacMetrics

text \<open>\<^verbatim>\<open>HeartSenseAIRiskLevel.CRITICAL\<close> is \<open>CRITICAL_RISK\<close> here (the name is taken).\<close>

datatype HeartSenseAIRiskLevel =
    STABLE | LOW | MODERATE | HIGH | CRITICAL_RISK | PENDING | INSUFFICIENT_DATA | ERROR

record HeartSenseAIOutput =
  riskScore :: real
  riskLevel :: HeartSenseAIRiskLevel
  predictionReasoning :: string
  confidenceScore :: "real option"

record HeartSenseAIState = HeartSenseAIOutput +
  lastAnalyzedTimestamp :: real
  isLoading :: bool
  error :: "string option"

text \<open>\<^verbatim>\<open>Omit<AlarmFeedbackType, 'not_reviewed'>\<close>, the type of every feedback that is stored.\<close>

datatype AlarmFeedbackType = true_positive | false_positive

record AlertSnapshot =
  messageS :: string
  severityS :: AlertSeverity
  metricS :: string
  originalTimestamp :: real

record AlarmFeedbackEntry =
  idF :: string
  patientIdF :: string
  alertSnapshot :: AlertSnapshot
  feedback :: AlarmFeedbackType
  feedbackTimestamp :: real

text \<open>A number that may be \<^verbatim>\<open>Infinity\<close>.\<close>

datatype jsnum = Fin real | PosInf

text \<open>
  \<^verbatim>\<open>PatientSpecificSimData\<close>. Nine fields that the hook only initialises and never
  reads or writes afterwards are left out (\<^verbatim>\<open>heartRateTrend\<close>, \<^verbatim>\<open>wenckebachCycleBeat\<close>,
  \<^verbatim>\<open>currentPRPoints\<close>, \<^verbatim>\<open>mobitzBeatInCycle\<close>, \<^verbatim>\<open>lastQRSWaveTime\<close>,
  \<^verbatim>\<open>pWaveCyclePosition\<close>, \<^verbatim>\<open>timeSinceLastCardiacEventMs\<close>, \<^verbatim>\<open>lastSpo2UpdateAttempt\<close>,
  \<^verbatim>\<open>nonNsrRhythmStartTime\<close>). \<^verbatim>\<open>heartSenseAIState\<close> is declared optional but is set by
  every constructor of the record, so it is always present here.
\<close>

record PatientSpecificSimData =
  metrics :: CardiacMetrics
  ecgData :: "ECGDataPoint list"
  spo2WaveData :: "ECGDataPoint list"
  respWaveData :: "ECGDataPoint list"
  alerts :: "Alert list"
  ecgPatternBuffer :: "real list"
  ecgBufferIndex :: nat
  ecgCurrentTime :: nat
  lastPWaveTime :: real
  nextRRIntervalPoints :: jsnum
  acknowledgedAlertIds :: "string set"
  loggedVitals :: "LoggedVitalSign list"
  lastBeatTimestamp :: "real option"
  heartSenseAIState :: HeartSenseAIState
  alarmFeedbackLog :: "AlarmFeedbackEntry list"
  currentTargetHeartRate :: real
  lastBPUpdate :: "real option"
  lastTempUpdate :: "real option"
  lastRRUpdate :: "real option"
  isLeadOff :: bool
  spo2PulsePatternBuffer :: "real list"
  spo2PulseBufferIndex :: nat
  spo2NextPulseDue :: bool
  respirationCyclePosition :: real

type_synonym SimulationDataMap = "(string \<times> PatientSpecificSimData) list"

text \<open>The three pieces of React state of the hook.\<close>

record SimulatorState =
  patients :: "Patient list"
  selectedPatientId :: "string option"
  simulationDataMap :: SimulationDataMap

subsection \<open>Constants and the rhythm catalog (constants.ts)\<close>

definition SIMULATION_VITALS_INTERVAL_MS :: real where
  "SIMULATION_VITALS_INTERVAL_MS = 1000"

definition SIMULATION_ECG_INTERVAL_MS :: real where
  "SIMULATION_ECG_INTERVAL_MS = 25"

definition BP_UPDATE_INTERVAL_MS :: real where
  "BP_UPDATE_INTERVAL_MS = 5 * 60 * 1000"

definition TEMP_UPDATE_INTERVAL_MS :: real where
  "TEMP_UPDATE_INTERVAL_MS = 10 * 60 * 1000"

definition RR_UPDATE_INTERVAL_MS :: real where
  "RR_UPDATE_INTERVAL_MS = 2 * 60 * 1000"

definition AUTO_LOG_VITALS_INTERVAL_SECONDS :: real where
  "AUTO_LOG_VITALS_INTERVAL_SECONDS = 60"

definition ECG_TIME_WINDOW_SECONDS :: real where
  "ECG_TIME_WINDOW_SECONDS = 10"

definition MAX_ECG_DATA_POINTS :: nat where
  "MAX_ECG_DATA_POINTS = nat \<lceil>ECG_TIME_WINDOW_SECONDS * (1000 / SIMULATION_ECG_INTERVAL_MS)\<rceil>"

definition HEARTSENSE_AI_ANALYSIS_INTERVAL_MS :: real where
  "HEARTSENSE_AI_ANALYSIS_INTERVAL_MS = 10 * 60 * 1000"

definition ECG_BASE_PATTERN :: "real list" where
  "ECG_BASE_PATTERN =
     [0, 0, 1/10, 2/10, 1/10, 0, - (1/10), 5/10, 15/10, - (8/10), 2/10, 0, 1/10, 2/10, 3/10,
      2/10, 1/10, 0, 0, 0]"

definition ECG_VT_PATTERN :: "real list" where
  "ECG_VT_PATTERN =
     [5/10, 1, 5/10, 0, - (5/10), - 1, - (5/10), 0, 6/10, 11/10, 6/10, 0, - (6/10), - (11/10),
      - (6/10), 0]"

definition ECG_VF_PATTERN :: "real list" where
  "ECG_VF_PATTERN =
     [3/10, - (2/10), 5/10, - (4/10), 2/10, - (1/10), 4/10, - (3/10), 1/10, 0, 2/10, - (2/10),
      3/10, - (1/10), 1/10, - (3/10)]"

definition ECG_TDP_PATTERN :: "real list" where
  "ECG_TDP_PATTERN =
     [5/10, 1, - (5/10), - (12/10), 3/10, 8/10, - (2/10), - (9/10), 1/10, 5/10, - (1/10),
      - (5/10), 6/10, 11/10, - (6/10), - (13/10)]"

definition ECG_THIRD_DEGREE_AV_BLOCK_PATTERN :: "real list" where
  "ECG_THIRD_DEGREE_AV_BLOCK_PATTERN = [- (1/10), 5/10, 15/10, - (8/10), 2/10, 0]"

definition ECG_P_WAVE_PATTERN :: "real list" where
  "ECG_P_WAVE_PATTERN = [0, 0, 1/10, 2/10, 1/10, 0, 0, 0]"

definition ECG_ASYSTOLE_PATTERN :: "real list" where
  "ECG_ASYSTOLE_PATTERN = [0, 0, 0, 0, 0, 0, 0, 0, 0, 0]"

definition ECG_AFIB_FIBRILLATORY_WAVE :: "real list" where
  "ECG_AFIB_FIBRILLATORY_WAVE =
     [0, 5/100, - (5/100), 3/100, - (3/100), 6/100, - (4/100), 2/100, - (2/100)]"

definition ECG_AFLUTTER_PATTERN :: "real list" where
  "ECG_AFLUTTER_PATTERN =
     [0, 2/10, 4/10, 2/10, 0, - (2/10), - (4/10), - (2/10),
      0, 2/10, 4/10, 2/10, 0, - (2/10), - (4/10), - (2/10),
      0, 1/10, 8/10, 15/10, - (6/10), 1/10, 0,
      0, 0, 0, 0]"

definition ECG_SVT_PATTERN :: "real list" where
  "ECG_SVT_PATTERN = [0, 0, 5/10, 15/10, - (8/10), 2/10, 0, 1/10, 1/10, 0, 0]"

definition ECG_PACER_SPIKE_PATTERN :: "real list" where
  "ECG_PACER_SPIKE_PATTERN = [0, 28/10, 0]"

definition ECG_PACED_QRS_PATTERN :: "real list" where
  "ECG_PACED_QRS_PATTERN = [0, 2/10, 6/10, 1, 4/10, - (3/10), - (5/10), - (2/10), 0]"

definition ECG_SPO2_BASELINE_VALUE :: real where
  "ECG_SPO2_BASELINE_VALUE = 2/10"

definition ECG_SPO2_PULSE_PATTERN :: "real list" where
  "ECG_SPO2_PULSE_PATTERN = [0, 4/10, 8/10, 1, 7/10, 5/10, 3/10, 15/100, 0]"

definition SPO2_PULSE_POINTS_DURATION :: real where
  "SPO2_PULSE_POINTS_DURATION = 18"

definition RESP_AMPLITUDE :: real where
  "RESP_AMPLITUDE = 1"

text \<open>
  \<^verbatim>\<open>x.toFixed(d)\<close> followed by \<^verbatim>\<open>parseFloat\<close>: the nearest multiple of \<open>10\<^sup>-\<^sup>d\<close>, a tie
  going away from zero.
\<close>

definition toFixed :: "nat \<Rightarrow> real \<Rightarrow> real" where
  "toFixed d x = sgn x * of_int \<lfloor>\<bar>x\<bar> * 10 ^ d + 1/2\<rfloor> / 10 ^ d"

text \<open>The first argument is the value that \<^verbatim>\<open>Math.random()\<close> returned.\<close>

definition generateRandomInRange :: "real \<Rightarrow> real \<Rightarrow> real \<Rightarrow> nat \<Rightarrow> real" where
  "generateRandomInRange u mn mx decimalPlaces = toFixed decimalPlaces (u * (mx - mn) + mn)"

text \<open>
  \<^verbatim>\<open>RhythmParameter\<close> with the fields the hook reads; an absent \<^verbatim>\<open>isLethal\<close> is
  \<open>False\<close>. \<open>simulatedHR\<close> takes the value of \<^verbatim>\<open>Math.random()\<close> that the call draws
  (the fixed-rate rhythms ignore it).
\<close>

record RhythmParameter =
  basePattern :: "real list"
  simulatedHR :: "real \<Rightarrow> real"
  atrialRate :: "real option"
  isLethal :: bool
  generatesQRS :: bool

fun RHYTHM_PARAMS :: "CardiacRhythm \<Rightarrow> RhythmParameter" where
  "RHYTHM_PARAMS NSR =
     \<lparr>basePattern = ECG_BASE_PATTERN, simulatedHR = (\<lambda>u. generateRandomInRange u 60 100 0),
      atrialRate = None, isLethal = False, generatesQRS = True\<rparr>"
| "RHYTHM_PARAMS VT =
     \<lparr>basePattern = ECG_VT_PATTERN, simulatedHR = (\<lambda>u. 180),
      atrialRate = None, isLethal = True, generatesQRS = True\<rparr>"
| "RHYTHM_PARAMS SINUS_TACHYCARDIA =
     \<lparr>basePattern = ECG_BASE_PATTERN, simulatedHR = (\<lambda>u. generateRandomInRange u 101 150 0),
      atrialRate = None, isLethal = False, generatesQRS = True\<rparr>"
| "RHYTHM_PARAMS SINUS_BRADYCARDIA =
     \<lparr>basePattern = ECG_BASE_PATTERN, simulatedHR = (\<lambda>u. generateRandomInRange u 40 59 0),
      atrialRate = None, isLethal = False, generatesQRS = True\<rparr>"
| "RHYTHM_PARAMS VENTRICULAR_FIBRILLATION =
     \<lparr>basePattern = ECG_VF_PATTERN, simulatedHR = (\<lambda>u. 300),
      atrialRate = None, isLethal = True, generatesQRS = False\<rparr>"
| "RHYTHM_PARAMS TORSADES_DE_POINTES =
     \<lparr>basePattern = ECG_TDP_PATTERN, simulatedHR = (\<lambda>u. generateRandomInRange u 200 250 0),
      atrialRate = None, isLethal = True, generatesQRS = True\<rparr>"
| "RHYTHM_PARAMS FIRST_DEGREE_AV_BLOCK =
     \<lparr>basePattern = ECG_BASE_PATTERN, simulatedHR = (\<lambda>u. generateRandomInRange u 60 100 0),
      atrialRate = None, isLethal = False, generatesQRS = True\<rparr>"
| "RHYTHM_PARAMS SECOND_DEGREE_AV_BLOCK_TYPE_I =
     \<lparr>basePattern = ECG_BASE_PATTERN, simulatedHR = (\<lambda>u. generateRandomInRange u 50 90 0),
      atrialRate = None, isLethal = False, generatesQRS = True\<rparr>"
| "RHYTHM_PARAMS SECOND_DEGREE_AV_BLOCK_TYPE_II =
     \<lparr>basePattern = ECG_BASE_PATTERN, simulatedHR = (\<lambda>u. generateRandomInRange u 40 70 0),
      atrialRate = None, isLethal = False, generatesQRS = True\<rparr>"
| "RHYTHM_PARAMS THIRD_DEGREE_AV_BLOCK =
     \<lparr>basePattern = ECG_THIRD_DEGREE_AV_BLOCK_PATTERN, simulatedHR = (\<lambda>u. 40),
      atrialRate = Some 70, isLethal = False, generatesQRS = True\<rparr>"
| "RHYTHM_PARAMS ATRIAL_FIBRILLATION =
     \<lparr>basePattern = ECG_AFIB_FIBRILLATORY_WAVE, simulatedHR = (\<lambda>u. generateRandomInRange u 70 160 0),
      atrialRate = None, isLethal = False, generatesQRS = True\<rparr>"
| "RHYTHM_PARAMS ATRIAL_FLUTTER =
     \<lparr>basePattern = ECG_AFLUTTER_PATTERN, simulatedHR = (\<lambda>u. 150),
      atrialRate = None, isLethal = False, generatesQRS = True\<rparr>"
| "RHYTHM_PARAMS SVT =
     \<lparr>basePattern = ECG_SVT_PATTERN, simulatedHR = (\<lambda>u. generateRandomInRange u 150 220 0),
      atrialRate = None, isLethal = False, generatesQRS = True\<rparr>"
| "RHYTHM_PARAMS ASYSTOLE =
     \<lparr>basePattern = ECG_ASYSTOLE_PATTERN, simulatedHR = (\<lambda>u. 0),
      atrialRate = None, isLethal = True, generatesQRS = False\<rparr>"

text \<open>
  One entry of \<^verbatim>\<open>ALERT_THRESHOLDS\<close>; the \<^verbatim>\<open>SPO2\<close> entry has no high thresholds.
\<close>

record GlobalThresholds =
  LOW_CRITICAL :: real
  LOW_WARNING :: real
  HIGH_WARNING :: "real option"
  HIGH_CRITICAL :: "real option"

definition ALERT_THRESHOLDS_HEART_RATE :: GlobalThresholds where
  "ALERT_THRESHOLDS_HEART_RATE =
     \<lparr>LOW_CRITICAL = 40, LOW_WARNING = 50, HIGH_WARNING = Some 110, HIGH_CRITICAL = Some 130\<rparr>"

definition ALERT_THRESHOLDS_SPO2 :: GlobalThresholds where
  "ALERT_THRESHOLDS_SPO2 =
     \<lparr>LOW_CRITICAL = 88, LOW_WARNING = 92, HIGH_WARNING = None, HIGH_CRITICAL = None\<rparr>"

definition INITIAL_HEARTSENSE_AI_STATE :: HeartSenseAIState where
  "INITIAL_HEARTSENSE_AI_STATE =
     \<lparr>riskScore = 0, riskLevel = PENDING, predictionReasoning = ''Awaiting initial analysis.'',
      confidenceScore = Some 0, lastAnalyzedTimestamp = 0, isLoading = False, error = None\<rparr>"

text \<open>\<^verbatim>\<open>hr || ...\<close>: a heart rate of 0 is falsy and is replaced by a fresh NSR rate.\<close>

definition getDefaultMetrics :: "real \<Rightarrow> real \<Rightarrow> real \<Rightarrow> CardiacMetrics" where
  "getDefaultMetrics hr u1 u2 =
     \<lparr>heartRate = (if hr \<noteq> 0 then hr else simulatedHR (RHYTHM_PARAMS NSR) u1),
      bloodPressure = \<lparr>systolic = 120, diastolic = 80\<rparr>,
      spo2 = 98,
      temperature = 37,
      respiratoryRate = generateRandomInRange u2 12 18 0\<rparr>"

definition getInitialEcgData :: "ECGDataPoint list" where
  "getInitialEcgData = map (\<lambda>i. \<lparr>timeE = i, valueE = 0\<rparr>) [0..<MAX_ECG_DATA_POINTS]"

definition getInitialSpo2Data :: "ECGDataPoint list" where
  "getInitialSpo2Data =
     map (\<lambda>i. \<lparr>timeE = i, valueE = ECG_SPO2_BASELINE_VALUE\<rparr>) [0..<MAX_ECG_DATA_POINTS]"

definition getInitialRespData :: "ECGDataPoint list" where
  "getInitialRespData = map (\<lambda>i. \<lparr>timeE = i, valueE = 0\<rparr>) [0..<MAX_ECG_DATA_POINTS]"

text \<open>
  \<^verbatim>\<open>createInitialPatientSimData\<close>; \<open>u0\<close>, \<open>u1\<close>, \<open>u2\<close> are the three values of
  \<^verbatim>\<open>Math.random()\<close> it may draw. (\<^verbatim>\<open>RHYTHM_PARAMS[r] || RHYTHM_PARAMS.NSR\<close>: every
  rhythm of the closed type has an entry.)
\<close>

definition createInitialPatientSimData ::
    "Patient \<Rightarrow> real \<Rightarrow> real \<Rightarrow> real \<Rightarrow> PatientSpecificSimData" where
  "createInitialPatientSimData patient u0 u1 u2 =
     (let rhythmParams = RHYTHM_PARAMS (activeRhythm patient);
          initialHR = simulatedHR rhythmParams u0
      in \<lparr>metrics = getDefaultMetrics initialHR u1 u2,
          ecgData = getInitialEcgData,
          spo2WaveData = getInitialSpo2Data,
          respWaveData = getInitialRespData,
          alerts = [],
          ecgPatternBuffer = [],
          ecgBufferIndex = 0,
          ecgCurrentTime = 0,
          lastPWaveTime = 0,
          nextRRIntervalPoints = Fin 0,
          acknowledgedAlertIds = {},
          loggedVitals = [],
          lastBeatTimestamp = Some 0,
          heartSenseAIState = INITIAL_HEARTSENSE_AI_STATE,
          alarmFeedbackLog = [],
          currentTargetHeartRate = initialHR,
          lastBPUpdate = Some 0,
          lastTempUpdate = Some 0,
          lastRRUpdate = Some 0,
          isLeadOff = False,
          spo2PulsePatternBuffer = [],
          spo2PulseBufferIndex = 0,
          spo2NextPulseDue = False,
          respirationCyclePosition = 0\<rparr>)"

subsection \<open>The environment of one loop iteration\<close>

text \<open>
  What one iteration of a loop body reads from outside the program: \<^verbatim>\<open>Date.now()\<close>, the
  \<open>k\<close>-th value of \<^verbatim>\<open>Math.random()\<close>, the \<open>k\<close>-th \<^verbatim>\<open>crypto.randomUUID()\<close> and the
  \<open>k\<close>-th \<^verbatim>\<open>new Date()\<close>.
\<close>

record TickEnv =
  dateNow :: real
  mathRandom :: "nat \<Rightarrow> real"
  randomUUID :: "nat \<Rightarrow> string"
  newDate :: "nat \<Rightarrow> real"

subsection \<open>Arithmetic with \<^verbatim>\<open>Infinity\<close>\<close>

text \<open>\<^verbatim>\<open>x <= 0\<close>\<close>

fun le_zero :: "jsnum \<Rightarrow> bool" where
  "le_zero (Fin x) = (x \<le> 0)"
| "le_zero PosInf = False"

text \<open>\<^verbatim>\<open>x--\<close>\<close>

fun decrement :: "jsnum \<Rightarrow> jsnum" where
  "decrement (Fin x) = Fin (x - 1)"
| "decrement PosInf = PosInf"

text \<open>\<^verbatim>\<open>x / y\<close> for a finite \<open>x\<close>\<close>

fun jsdiv :: "real \<Rightarrow> jsnum \<Rightarrow> real" where
  "jsdiv x (Fin y) = x / y"
| "jsdiv x PosInf = 0"

text \<open>
  \<^verbatim>\<open>x % y\<close> for a finite \<open>x\<close>: the remainder has the sign of the dividend, the quotient is
  truncated towards zero. (The divisor of the only use is positive or \<^verbatim>\<open>Infinity\<close>.)
\<close>

definition trunc :: "real \<Rightarrow> int" where
  "trunc x = (if x \<ge> 0 then \<lfloor>x\<rfloor> else \<lceil>x\<rceil>)"

fun jsmod :: "real \<Rightarrow> jsnum \<Rightarrow> real" where
  "jsmod x (Fin y) = x - of_int (trunc (x / y)) * y"
| "jsmod x PosInf = x"

subsection \<open>High-frequency loop: ECG and waveforms (lines 301-415)\<close>

definition pointsPerSecond :: real where
  "pointsPerSecond = 1000 / SIMULATION_ECG_INTERVAL_MS"

text \<open>\<^verbatim>\<open>[...buf.slice(1), pt]\<close>\<close>

definition slide :: "ECGDataPoint list \<Rightarrow> ECGDataPoint \<Rightarrow> ECGDataPoint list" where
  "slide buf pt = tl buf @ [pt]"

definition respCyclePoints :: "CardiacMetrics \<Rightarrow> jsnum" where
  "respCyclePoints m =
     (let respRateHz = respiratoryRate m / 60
      in if respRateHz > 0 then Fin ((1 / respRateHz) * pointsPerSecond) else PosInf)"

definition respPosition :: "CardiacMetrics \<Rightarrow> real \<Rightarrow> real" where
  "respPosition m pos = jsmod (pos + 1) (respCyclePoints m)"

definition respValue :: "CardiacMetrics \<Rightarrow> real \<Rightarrow> real" where
  "respValue m pos' = sin (jsdiv pos' (respCyclePoints m) * 2 * pi) * RESP_AMPLITUDE"

text \<open>The SpO2 sample while the pulse pattern \<open>buf\<close> is walked at index \<open>idx\<close>.\<close>

definition spo2PulseValue :: "CardiacMetrics \<Rightarrow> real list \<Rightarrow> nat \<Rightarrow> real" where
  "spo2PulseValue m buf idx =
     (let pulseProgress = real idx / SPO2_PULSE_POINTS_DURATION;
          amplitude = sin (pulseProgress * pi) * (spo2 m / 100)
      in ECG_SPO2_BASELINE_VALUE + buf ! idx * (1/2) * max (1/2) amplitude)"

text \<open>The lead-off branch (lines 313-340).\<close>

definition leadOffStep :: "PatientSpecificSimData \<Rightarrow> PatientSpecificSimData" where
  "leadOffStep currentSimData =
     (let newMetrics = (metrics currentSimData)\<lparr>heartRate := 0\<rparr>;
          t = ecgCurrentTime currentSimData;
          pos = respPosition newMetrics (respirationCyclePosition currentSimData);
          idx = spo2PulseBufferIndex currentSimData;
          buf = spo2PulsePatternBuffer currentSimData;
          pulse = (idx < length buf);
          spo2Value = (if pulse then spo2PulseValue newMetrics buf idx else ECG_SPO2_BASELINE_VALUE)
      in currentSimData
          \<lparr>metrics := newMetrics,
           ecgData := slide (ecgData currentSimData) \<lparr>timeE = t, valueE = 0\<rparr>,
           respirationCyclePosition := pos,
           respWaveData :=
             slide (respWaveData currentSimData) \<lparr>timeE = t, valueE = respValue newMetrics pos\<rparr>,
           spo2PulseBufferIndex := (if pulse then idx + 1 else 0),
           spo2PulsePatternBuffer := (if pulse then buf else []),
           spo2NextPulseDue := (if pulse then spo2NextPulseDue currentSimData else False),
           spo2WaveData := slide (spo2WaveData currentSimData) \<lparr>timeE = t, valueE = spo2Value\<rparr>,
           ecgCurrentTime := t + 1\<rparr>)"

text \<open>
  The pacing decision of a tick (lines 343-356): \<open>Some r\<close> when a beat is due, the pacer is
  on and the displayed heart rate is below the pacer rate \<open>r\<close> (\<^verbatim>\<open>isPacedBeat\<close>).
\<close>

definition effectivePacerSettings :: "Patient \<Rightarrow> PacerSettings" where
  "effectivePacerSettings patient =
     (case pacerSettings patient of Some s \<Rightarrow> s | None \<Rightarrow> \<lparr>mode = Some Off, rate = Some 70\<rparr>)"

definition pacedRate :: "Patient \<Rightarrow> PatientSpecificSimData \<Rightarrow> real option" where
  "pacedRate patient sd =
     (let ps = effectivePacerSettings patient;
          pacerOn = (mode ps \<noteq> Some Off);
          heartRate = heartRate (metrics sd)
      in if le_zero (nextRRIntervalPoints sd) \<and> pacerOn
         then (case rate ps of Some r \<Rightarrow> if heartRate < r then Some r else None | None \<Rightarrow> None)
         else None)"

text \<open>The ECG pattern walked in this tick (\<^verbatim>\<open>currentPattern\<close>, lines 362-380).\<close>

definition currentPattern :: "Patient \<Rightarrow> PatientSpecificSimData \<Rightarrow> real list" where
  "currentPattern patient sd =
     (if ecgBufferIndex sd > 0 then ecgPatternBuffer sd
      else if le_zero (nextRRIntervalPoints sd)
      then (if pacedRate patient sd \<noteq> None
            then ECG_PACER_SPIKE_PATTERN @ ECG_PACED_QRS_PATTERN
            else basePattern (RHYTHM_PARAMS (activeRhythm patient)))
      else [])"

text \<open>
  The branch for a connected lead (lines 342-411). For third-degree AV block, line 370
  stores \<^verbatim>\<open>ECG_P_WAVE_PATTERN\<close> in the pattern buffer, but line 377 overwrites the
  buffer in the same branch, so only \<^verbatim>\<open>lastPWaveTime\<close> keeps a trace of it.
\<close>

definition rhythmStep ::
    "Patient \<Rightarrow> TickEnv \<Rightarrow> PatientSpecificSimData \<Rightarrow> PatientSpecificSimData" where
  "rhythmStep patient env currentSimData =
     (let now = dateNow env;
          rhythmParams = RHYTHM_PARAMS (activeRhythm patient);
          nextBeatDue = le_zero (nextRRIntervalPoints currentSimData);
          paced = pacedRate patient currentSimData;
          isPacedBeat = (paced \<noteq> None);
          newRate = (if nextBeatDue
                     then (case paced of Some r \<Rightarrow> r
                           | None \<Rightarrow> simulatedHR rhythmParams (mathRandom env 0))
                     else currentTargetHeartRate currentSimData);
          rr = (if nextBeatDue
                then (if newRate > 0 then Fin ((60 / newRate) * pointsPerSecond) else PosInf)
                else nextRRIntervalPoints currentSimData);
          patternIndex = ecgBufferIndex currentSimData;
          beatStarts = (\<not> patternIndex > 0 \<and> nextBeatDue);
          pWave = (beatStarts \<and> activeRhythm patient = THIRD_DEGREE_AV_BLOCK \<and>
                   (case atrialRate rhythmParams of
                      Some a \<Rightarrow> now - lastPWaveTime currentSimData > 60000 / a
                    | None \<Rightarrow> False));
          pattern = currentPattern patient currentSimData;
          newValue = (if patternIndex < length pattern then pattern ! patternIndex else 0);
          t = ecgCurrentTime currentSimData;
          newIndex = (if int patternIndex \<ge> int (length pattern) - 1 then 0 else patternIndex + 1);
          due = (if beatStarts then generatesQRS rhythmParams \<or> isPacedBeat
                 else spo2NextPulseDue currentSimData);
          idx = spo2PulseBufferIndex currentSimData;
          buf = (if due \<and> idx = 0 then ECG_SPO2_PULSE_PATTERN
                 else spo2PulsePatternBuffer currentSimData);
          pulse = (idx < length buf);
          spo2Value = (if pulse then spo2PulseValue (metrics currentSimData) buf idx
                       else ECG_SPO2_BASELINE_VALUE);
          pos = respPosition (metrics currentSimData) (respirationCyclePosition currentSimData)
      in currentSimData
          \<lparr>currentTargetHeartRate := newRate,
           nextRRIntervalPoints := decrement rr,
           lastPWaveTime := (if pWave then now else lastPWaveTime currentSimData),
           lastBeatTimestamp := (if beatStarts then Some now else lastBeatTimestamp currentSimData),
           ecgData := slide (ecgData currentSimData) \<lparr>timeE = t, valueE = newValue\<rparr>,
           ecgCurrentTime := t + 1,
           ecgBufferIndex := newIndex,
           ecgPatternBuffer :=
             (if newIndex = 0 then []
              else if beatStarts then pattern else ecgPatternBuffer currentSimData),
           spo2PulseBufferIndex := (if pulse then idx + 1 else 0),
           spo2PulsePatternBuffer := (if pulse then buf else []),
           spo2NextPulseDue := (if pulse then due else False),
           spo2WaveData :=
             slide (spo2WaveData currentSimData) \<lparr>timeE = t + 1, valueE = spo2Value\<rparr>,
           respirationCyclePosition := pos,
           respWaveData :=
             slide (respWaveData currentSimData)
               \<lparr>timeE = t + 1, valueE = respValue (metrics currentSimData) pos\<rparr>\<rparr>)"

text \<open>The body of the loop for one entry whose patient is in the registry.\<close>

definition ecgStep ::
    "Patient \<Rightarrow> TickEnv \<Rightarrow> PatientSpecificSimData \<Rightarrow> PatientSpecificSimData" where
  "ecgStep patient env currentSimData =
     (if isLeadOff currentSimData then leadOffStep currentSimData
      else rhythmStep patient env currentSimData)"

text \<open>
  The updater of the high-frequency interval: a new Map is filled from the entries of
  the previous one; an entry whose patient is not found is skipped (\<^verbatim>\<open>continue\<close>).
  \<open>env\<close> gives the environment of the iteration for each patient id.
\<close>

definition ecgTick ::
    "Patient list \<Rightarrow> (string \<Rightarrow> TickEnv) \<Rightarrow> SimulationDataMap \<Rightarrow> SimulationDataMap" where
  "ecgTick ps env prevMap =
     foldl (\<lambda>newMap (patientId, currentSimData).
              case find (\<lambda>p. idP p = patientId) ps of
                None \<Rightarrow> newMap
              | Some patient \<Rightarrow>
                  AList.update patientId (ecgStep patient (env patientId) currentSimData) newMap)
       [] prevMap"

subsection \<open>Rendering a number in a template string\<close>

text \<open>
  \<^verbatim>\<open>`${value}`\<close> applies JavaScript's Number-to-String conversion, which belongs to
  the language and not to the repository. For an integer of absolute value below
  \<open>2\<^sup>5\<^sup>3\<close> the conversion gives the sign and the decimal digits, and \<open>numberToString\<close>
  computes them. For every other number (one with a fractional part, or too large) the
  conversion prints the shortest digits that read back as the same double, with an
  exponent where the language asks for one; there the model takes the conversion as its
  parameter \<open>toStr\<close>, about which it assumes nothing.
\<close>

definition digitChar :: "nat \<Rightarrow> char" where
  "digitChar d = ''0123456789'' ! d"

function natToString :: "nat \<Rightarrow> string" where
  "natToString n =
     (if n < 10 then [digitChar n] else natToString (n div 10) @ [digitChar (n mod 10)])"
  by pat_completeness auto
termination
  by (relation "measure id") auto

declare natToString.simps [simp del]

definition numberToString :: "(real \<Rightarrow> string) \<Rightarrow> real \<Rightarrow> string" where
  "numberToString toStr x =
     (if real_of_int \<lfloor>x\<rfloor> = x \<and> \<bar>x\<bar> < 2 ^ 53
      then (if x < 0 then ''-'' else []) @ natToString (nat \<lfloor>\<bar>x\<bar>\<rfloor>)
      else toStr x)"

subsection \<open>Alert engine: \<^verbatim>\<open>checkAlert\<close> (lines 463-477)\<close>

datatype AlertType = low | high

text \<open>The threshold selected by lines 467-468; \<^verbatim>\<open>pt?.f ?? g\<close>.\<close>

definition nullish :: "'a option \<Rightarrow> 'a option \<Rightarrow> 'a option" where
  "nullish a b = (case a of Some v \<Rightarrow> Some v | None \<Rightarrow> b)"

definition alertThreshold ::
    "GlobalThresholds \<Rightarrow> MetricThresholds option \<Rightarrow> AlertSeverity \<Rightarrow> AlertType \<Rightarrow> real option" where
  "alertThreshold gt pt sev type =
     (if type = low
      then (if sev = WARNING
            then nullish (Option.bind pt lowWarning) (Some (LOW_WARNING gt))
            else nullish (Option.bind pt lowCritical) (Some (LOW_CRITICAL gt)))
      else (if sev = WARNING
            then nullish (Option.bind pt highWarning) (HIGH_WARNING gt)
            else nullish (Option.bind pt highCritical) (HIGH_CRITICAL gt)))"

text \<open>Line 470; a comparison with \<^verbatim>\<open>undefined\<close> is false.\<close>

definition isTriggered ::
    "real \<Rightarrow> GlobalThresholds \<Rightarrow> MetricThresholds option \<Rightarrow> AlertSeverity \<Rightarrow> AlertType \<Rightarrow> bool" where
  "isTriggered v gt pt sev type =
     (case alertThreshold gt pt sev type of
        None \<Rightarrow> False
      | Some threshold \<Rightarrow> if type = low then v < threshold else v > threshold)"

definition alertMessage :: "(real \<Rightarrow> string) \<Rightarrow> string \<Rightarrow> AlertType \<Rightarrow> real \<Rightarrow> string" where
  "alertMessage toStr metricName type v =
     metricName @ '' '' @ (if type = low then ''Low'' else ''High'') @ '': '' @
     numberToString toStr v"

text \<open>
  \<open>newId\<close> and \<open>date\<close> are the \<^verbatim>\<open>generateUniqueId()\<close> and the \<^verbatim>\<open>new Date()\<close> of the
  pushed alert; the last argument is the array \<^verbatim>\<open>newAlerts\<close> that the closure mutates;
  \<open>toStr\<close> is the parameter of \<open>numberToString\<close>.
\<close>

definition checkAlert ::
    "(real \<Rightarrow> string) \<Rightarrow> string \<Rightarrow> real \<Rightarrow> GlobalThresholds \<Rightarrow> MetricThresholds option \<Rightarrow> AlertSeverity \<Rightarrow>
     AlertType \<Rightarrow> string \<Rightarrow> real \<Rightarrow> Alert list \<Rightarrow> Alert list" where
  "checkAlert toStr metricName v gt pt sev type newId date newAlerts =
     (if isTriggered v gt pt sev type
      then (let msg = alertMessage toStr metricName type v
            in if \<not> list_ex (\<lambda>a. message a = msg \<and> severity a = sev) newAlerts
               then newAlerts @
                      [\<lparr>idA = newId, message = msg, severity = sev, timestamp = date,
                        metric = metricName\<rparr>]
               else newAlerts)
      else newAlerts)"

text \<open>The metric name \<^verbatim>\<open>'SpO'\<close> followed by U+2082 (subscript two), in UTF-8.\<close>

definition SpO2_name :: string where
  "SpO2_name = ''SpO'' @ [CHR 0xE2, CHR 0x82, CHR 0x82]"

text \<open>The six calls of lines 479-484, in order.\<close>

definition evaluateAlerts ::
    "(real \<Rightarrow> string) \<Rightarrow> Patient \<Rightarrow> CardiacMetrics \<Rightarrow> TickEnv \<Rightarrow> Alert list \<Rightarrow> Alert list" where
  "evaluateAlerts toStr patient newMetrics env newAlerts =
     (let hrT = Option.bind (personalizedThresholds patient) heartRateT;
          spT = Option.bind (personalizedThresholds patient) spo2T;
          hr = heartRate newMetrics;
          sp = spo2 newMetrics;
          a1 = checkAlert toStr ''Heart Rate'' hr ALERT_THRESHOLDS_HEART_RATE hrT CRITICAL low
                 (randomUUID env 0) (newDate env 0) newAlerts;
          a2 = checkAlert toStr ''Heart Rate'' hr ALERT_THRESHOLDS_HEART_RATE hrT WARNING low
                 (randomUUID env 1) (newDate env 1) a1;
          a3 = checkAlert toStr ''Heart Rate'' hr ALERT_THRESHOLDS_HEART_RATE hrT CRITICAL high
                 (randomUUID env 2) (newDate env 2) a2;
          a4 = checkAlert toStr ''Heart Rate'' hr ALERT_THRESHOLDS_HEART_RATE hrT WARNING high
                 (randomUUID env 3) (newDate env 3) a3;
          a5 = checkAlert toStr SpO2_name sp ALERT_THRESHOLDS_SPO2 spT CRITICAL low
                 (randomUUID env 4) (newDate env 4) a4
      in checkAlert toStr SpO2_name sp ALERT_THRESHOLDS_SPO2 spT WARNING low
           (randomUUID env 5) (newDate env 5) a5)"

subsection \<open>Low-frequency loop: vitals, alerts, logging (lines 419-501)\<close>

text \<open>\<^verbatim>\<open>x || 0\<close>\<close>

definition orZero :: "real option \<Rightarrow> real" where
  "orZero x = (case x of Some v \<Rightarrow> v | None \<Rightarrow> 0)"

definition bpDue :: "real \<Rightarrow> PatientSpecificSimData \<Rightarrow> bool" where
  "bpDue now sd = (now - orZero (lastBPUpdate sd) > BP_UPDATE_INTERVAL_MS)"

definition tempDue :: "real \<Rightarrow> PatientSpecificSimData \<Rightarrow> bool" where
  "tempDue now sd = (now - orZero (lastTempUpdate sd) > TEMP_UPDATE_INTERVAL_MS)"

definition rrDue :: "real \<Rightarrow> PatientSpecificSimData \<Rightarrow> bool" where
  "rrDue now sd = (now - orZero (lastRRUpdate sd) > RR_UPDATE_INTERVAL_MS)"

text \<open>\<^verbatim>\<open>newMetrics\<close> after lines 438-460.\<close>

definition updateMetrics :: "Patient \<Rightarrow> TickEnv \<Rightarrow> PatientSpecificSimData \<Rightarrow> CardiacMetrics" where
  "updateMetrics patient env simData =
     (let now = dateNow env;
          m0 = metrics simData;
          hrDiff = currentTargetHeartRate simData - heartRate m0;
          m1 = m0\<lparr>heartRate := heartRate m0 + sgn hrDiff * min \<bar>hrDiff\<bar> 2\<rparr>;
          m2 = (if bpDue now simData
                then m1\<lparr>bloodPressure :=
                        \<lparr>systolic = systolic (bloodPressure m1) +
                                      generateRandomInRange (mathRandom env 0) (- 3) 3 0,
                         diastolic = diastolic (bloodPressure m1) +
                                       generateRandomInRange (mathRandom env 1) (- 2) 2 0\<rparr>\<rparr>
                else m1);
          m3 = (if tempDue now simData
                then m2\<lparr>temperature := temperature m2 +
                          generateRandomInRange (mathRandom env 2) (- (1/10)) (1/10) 1\<rparr>
                else m2);
          m4 = (if rrDue now simData
                then (let newRR = respiratoryRate m3 +
                                    generateRandomInRange (mathRandom env 3) (- 1) 1 0
                      in m3\<lparr>respiratoryRate := max 8 (min 35 newRR)\<rparr>)
                else m3)
      in if isLethal (RHYTHM_PARAMS (activeRhythm patient))
         then m4\<lparr>bloodPressure := \<lparr>systolic = 0, diastolic = 0\<rparr>, spo2 := 0,
                 respiratoryRate := 0\<rparr>
         else m4)"

text \<open>Lines 487-491.\<close>

definition logVitals ::
    "real \<Rightarrow> CardiacMetrics \<Rightarrow> LoggedVitalSign list \<Rightarrow> LoggedVitalSign list" where
  "logVitals now newMetrics lv =
     (if length lv = 0 \<or> now - timestampL (last lv) > AUTO_LOG_VITALS_INTERVAL_SECONDS * 1000
      then (let updatedVitals = lv @ [\<lparr>timestampL = now, metricsL = newMetrics\<rparr>]
            in if length updatedVitals > 200 then tl updatedVitals else updatedVitals)
      else lv)"

text \<open>
  The body of the loop for one entry whose patient is in the registry. The call
  \<^verbatim>\<open>runHeartSenseAIAnalysis(patient, newSimData)\<close> at its end queues updaters of its own
  (below) and does not change the value built here.
\<close>

definition vitalsStep ::
    "(real \<Rightarrow> string) \<Rightarrow> Patient \<Rightarrow> TickEnv \<Rightarrow> PatientSpecificSimData \<Rightarrow> PatientSpecificSimData" where
  "vitalsStep toStr patient env simData =
     (let now = dateNow env;
          newMetrics = updateMetrics patient env simData
      in simData
          \<lparr>lastBPUpdate := (if bpDue now simData then Some now else lastBPUpdate simData),
           lastTempUpdate := (if tempDue now simData then Some now else lastTempUpdate simData),
           lastRRUpdate := (if rrDue now simData then Some now else lastRRUpdate simData),
           metrics := newMetrics,
           alerts := evaluateAlerts toStr patient newMetrics env (alerts simData),
           loggedVitals := logVitals now newMetrics (loggedVitals simData)\<rparr>)"

text \<open>
  The updater of the low-frequency interval: an entry whose patient is not found is
  copied into the new Map as it is.
\<close>

definition vitalsTick ::
    "(real \<Rightarrow> string) \<Rightarrow> Patient list \<Rightarrow> (string \<Rightarrow> TickEnv) \<Rightarrow> SimulationDataMap \<Rightarrow>
     SimulationDataMap" where
  "vitalsTick toStr ps env prevMap =
     foldl (\<lambda>newMap (patientId, simData).
              case find (\<lambda>p. idP p = patientId) ps of
                None \<Rightarrow> AList.update patientId simData newMap
              | Some patient \<Rightarrow>
                  AList.update patientId (vitalsStep toStr patient (env patientId) simData)
                    newMap)
       [] prevMap"

subsection \<open>\<^verbatim>\<open>runHeartSenseAIAnalysis\<close> (lines 254-295)\<close>

text \<open>Line 493: whether the low-frequency loop calls the analysis for the entry.\<close>

definition analysisDue :: "real \<Rightarrow> PatientSpecificSimData \<Rightarrow> bool" where
  "analysisDue now newSimData =
     (now - lastAnalyzedTimestamp (heartSenseAIState newSimData) > HEARTSENSE_AI_ANALYSIS_INTERVAL_MS)"

text \<open>
  The updater queued before the analysis is awaited (line 257); the call returns without
  queueing anything when \<^verbatim>\<open>isLoading\<close> is already set.
\<close>

definition aiStart :: "Patient \<Rightarrow> PatientSpecificSimData \<Rightarrow> SimulationDataMap \<Rightarrow> SimulationDataMap" where
  "aiStart patient simData prev =
     (if isLoading (heartSenseAIState simData) then prev
      else AList.update (idP patient)
             (simData\<lparr>heartSenseAIState := (heartSenseAIState simData)\<lparr>isLoading := True\<rparr>\<rparr>) prev)"

text \<open>The updater run when the analysis resolves with \<open>aiOutput\<close> (lines 262-274).\<close>

definition aiResolved ::
    "string \<Rightarrow> HeartSenseAIOutput \<Rightarrow> real \<Rightarrow> SimulationDataMap \<Rightarrow> SimulationDataMap" where
  "aiResolved patientId aiOutput now prev =
     (case map_of prev patientId of
        None \<Rightarrow> prev
      | Some currentSimData \<Rightarrow>
          AList.update patientId
            (currentSimData
               \<lparr>heartSenseAIState :=
                  \<lparr>riskScore = riskScore aiOutput, riskLevel = riskLevel aiOutput,
                   predictionReasoning = predictionReasoning aiOutput,
                   confidenceScore = confidenceScore aiOutput,
                   lastAnalyzedTimestamp = now, isLoading = False, error = None\<rparr>\<rparr>)
            prev)"

text \<open>The updater run when the analysis rejects with \<open>errorMessage\<close> (lines 277-293).\<close>

definition aiRejected :: "string \<Rightarrow> string \<Rightarrow> real \<Rightarrow> SimulationDataMap \<Rightarrow> SimulationDataMap" where
  "aiRejected patientId errorMessage now prev =
     (case map_of prev patientId of
        None \<Rightarrow> prev
      | Some currentSimData \<Rightarrow>
          AList.update patientId
            (currentSimData
               \<lparr>heartSenseAIState :=
                  INITIAL_HEARTSENSE_AI_STATE
                    \<lparr>riskLevel := ERROR,
                     predictionReasoning := ''An error occurred during analysis.'',
                     lastAnalyzedTimestamp := now, isLoading := False,
                     error := Some errorMessage\<rparr>\<rparr>)
            prev)"

subsection \<open>Patient management API (lines 527-681)\<close>

text \<open>
  The pattern shared by the operations on one entry of the Map:
  \<^verbatim>\<open>const newMap = new Map(prev); const simData = newMap.get(patientId);
  if (simData) { ...; newMap.set(patientId, newSimData); } return newMap;\<close>
\<close>

definition withSimData ::
    "string \<Rightarrow> (PatientSpecificSimData \<Rightarrow> PatientSpecificSimData) \<Rightarrow> SimulationDataMap \<Rightarrow>
     SimulationDataMap" where
  "withSimData patientId f prev =
     (case map_of prev patientId of
        None \<Rightarrow> prev
      | Some simData \<Rightarrow> AList.update patientId (f simData) prev)"

text \<open>
  \<^verbatim>\<open>deletePatient\<close> (lines 527-547): the three updaters, applied to the three pieces of
  state.
\<close>

definition deletePatient :: "string \<Rightarrow> SimulatorState \<Rightarrow> SimulatorState" where
  "deletePatient patientId st =
     (let newPatients = filter (\<lambda>p. idP p \<noteq> patientId) (patients st)
      in st\<lparr>simulationDataMap := AList.delete patientId (simulationDataMap st),
            patients := newPatients,
            selectedPatientId :=
              (if selectedPatientId st = Some patientId
               then (case newPatients of [] \<Rightarrow> None | p # rest \<Rightarrow> Some (idP p))
               else selectedPatientId st)\<rparr>)"

definition selectPatient :: "string \<Rightarrow> SimulatorState \<Rightarrow> SimulatorState" where
  "selectPatient patientId st = st\<lparr>selectedPatientId := Some patientId\<rparr>"

text \<open>\<^verbatim>\<open>{ ...p, ...details }\<close>\<close>

definition override :: "'a option \<Rightarrow> 'a \<Rightarrow> 'a" where
  "override new old = (case new of Some v \<Rightarrow> v | None \<Rightarrow> old)"

definition mergeDetails :: "Patient \<Rightarrow> PatientDetails \<Rightarrow> Patient" where
  "mergeDetails p d =
     \<lparr>idP = override (idD d) (idP p),
      name = override (nameD d) (name p),
      age = override (ageD d) (age p),
      gender = override (genderD d) (gender p),
      room = override (roomD d) (room p),
      notesP = override (notesD d) (notesP p),
      diagnosis = override (diagnosisD d) (diagnosis p),
      personalizedThresholds = override (personalizedThresholdsD d) (personalizedThresholds p),
      activeRhythm = override (activeRhythmD d) (activeRhythm p),
      pacerSettings = override (pacerSettingsD d) (pacerSettings p),
      noiseSignatures = override (noiseSignaturesD d) (noiseSignatures p),
      codeStatus = override (codeStatusD d) (codeStatus p),
      source = override (sourceD d) (source p)\<rparr>"

definition updatePatientDetails ::
    "string \<Rightarrow> PatientDetails \<Rightarrow> SimulatorState \<Rightarrow> SimulatorState" where
  "updatePatientDetails patientId details st =
     st\<lparr>patients := map (\<lambda>p. if idP p = patientId then mergeDetails p details else p) (patients st)\<rparr>"

text \<open>\<open>u\<close> is the value of \<^verbatim>\<open>Math.random()\<close> that \<^verbatim>\<open>simulatedHR()\<close> draws.\<close>

definition setPatientRhythm ::
    "string \<Rightarrow> CardiacRhythm \<Rightarrow> real \<Rightarrow> SimulatorState \<Rightarrow> SimulatorState" where
  "setPatientRhythm patientId rhythm u st =
     st\<lparr>patients :=
          map (\<lambda>p. if idP p = patientId then p\<lparr>activeRhythm := rhythm\<rparr> else p) (patients st),
        simulationDataMap :=
          withSimData patientId
            (\<lambda>simData. simData\<lparr>currentTargetHeartRate := simulatedHR (RHYTHM_PARAMS rhythm) u\<rparr>)
            (simulationDataMap st)\<rparr>"

definition acknowledgePatientAlerts ::
    "string \<Rightarrow> AlertSeverity option \<Rightarrow> SimulatorState \<Rightarrow> SimulatorState" where
  "acknowledgePatientAlerts patientId alertTypeToAcknowledge st =
     st\<lparr>simulationDataMap :=
          withSimData patientId
            (\<lambda>simData.
               simData\<lparr>acknowledgedAlertIds :=
                 acknowledgedAlertIds simData \<union>
                 set (map idA
                        (filter (\<lambda>a. alertTypeToAcknowledge = None \<or>
                                      Some (severity a) = alertTypeToAcknowledge)
                           (alerts simData)))\<rparr>)
            (simulationDataMap st)\<rparr>"

text \<open>\<^verbatim>\<open>{ ...p.pacerSettings!, ...settings }\<close>\<close>

definition mergePacerSettings :: "PacerSettings option \<Rightarrow> PacerSettings \<Rightarrow> PacerSettings" where
  "mergePacerSettings old settings =
     (let base = (case old of Some s \<Rightarrow> s | None \<Rightarrow> \<lparr>mode = None, rate = None\<rparr>)
      in \<lparr>mode = nullish (mode settings) (mode base),
          rate = nullish (rate settings) (rate base)\<rparr>)"

definition updatePatientPacingSettings ::
    "string \<Rightarrow> PacerSettings \<Rightarrow> SimulatorState \<Rightarrow> SimulatorState" where
  "updatePatientPacingSettings patientId settings st =
     st\<lparr>patients :=
          map (\<lambda>p. if idP p = patientId
                    then p\<lparr>pacerSettings := Some (mergePacerSettings (pacerSettings p) settings)\<rparr>
                    else p)
            (patients st)\<rparr>"

definition updatePatientNoiseSignatures ::
    "string \<Rightarrow> string list \<Rightarrow> SimulatorState \<Rightarrow> SimulatorState" where
  "updatePatientNoiseSignatures patientId signatures st =
     st\<lparr>patients :=
          map (\<lambda>p. if idP p = patientId then p\<lparr>noiseSignatures := Some signatures\<rparr> else p)
            (patients st)\<rparr>"

text \<open>
  \<^verbatim>\<open>provideAlarmFeedback\<close> on the entry found (lines 606-646); the \<open>k\<close>-th feedback entry
  takes the \<open>k\<close>-th unique id.
\<close>

definition feedbackSimData ::
    "string \<Rightarrow> AlarmFeedbackType \<Rightarrow> AlertSeverity \<Rightarrow> TickEnv \<Rightarrow> PatientSpecificSimData \<Rightarrow>
     PatientSpecificSimData" where
  "feedbackSimData patientId feedbackType alertSeverity env simData =
     (let unacknowledgedAlerts =
            filter (\<lambda>a. severity a = alertSeverity \<and> idA a \<notin> acknowledgedAlertIds simData)
              (alerts simData);
          shouldReconnectLead = list_ex (\<lambda>a. message a = ''ECG Lead Off'') unacknowledgedAlerts;
          entries =
            map (\<lambda>(k, a).
                   \<lparr>idF = randomUUID env k, patientIdF = patientId,
                    alertSnapshot =
                      \<lparr>messageS = message a, severityS = severity a, metricS = metric a,
                       originalTimestamp = timestamp a\<rparr>,
                    feedback = feedbackType, feedbackTimestamp = dateNow env\<rparr>)
              (enumerate 0 unacknowledgedAlerts);
          newSimData =
            simData\<lparr>alarmFeedbackLog := alarmFeedbackLog simData @ entries,
                    acknowledgedAlertIds :=
                      acknowledgedAlertIds simData \<union> set (map idA unacknowledgedAlerts)\<rparr>
      in if shouldReconnectLead
         then newSimData\<lparr>isLeadOff := False,
                         alerts := filter (\<lambda>a. message a \<noteq> ''ECG Lead Off'') (alerts newSimData)\<rparr>
         else newSimData)"

definition provideAlarmFeedback ::
    "string \<Rightarrow> AlarmFeedbackType \<Rightarrow> AlertSeverity \<Rightarrow> TickEnv \<Rightarrow> SimulatorState \<Rightarrow>
     SimulatorState" where
  "provideAlarmFeedback patientId feedbackType alertSeverity env st =
     st\<lparr>simulationDataMap :=
          withSimData patientId (feedbackSimData patientId feedbackType alertSeverity env)
            (simulationDataMap st)\<rparr>"

text \<open>
  \<^verbatim>\<open>toggleEcgLeadOff\<close> on the entry found (lines 657-676); \<open>newId\<close> and \<open>date\<close> are the
  \<^verbatim>\<open>generateUniqueId()\<close> and \<^verbatim>\<open>new Date()\<close> of a pushed alert.
\<close>

definition toggleSimData ::
    "string \<Rightarrow> real \<Rightarrow> PatientSpecificSimData \<Rightarrow> PatientSpecificSimData" where
  "toggleSimData newId date simData =
     (let newIsLeadOff = (\<not> isLeadOff simData);
          newAlerts =
            (if newIsLeadOff
             then (if \<not> list_ex (\<lambda>a. message a = ''ECG Lead Off'') (alerts simData)
                   then alerts simData @
                          [\<lparr>idA = newId, message = ''ECG Lead Off'', severity = CRITICAL,
                            timestamp = date, metric = ''ECG''\<rparr>]
                   else alerts simData)
             else filter (\<lambda>a. message a \<noteq> ''ECG Lead Off'') (alerts simData))
      in simData\<lparr>isLeadOff := newIsLeadOff, alerts := newAlerts\<rparr>)"

definition toggleEcgLeadOff :: "string \<Rightarrow> string \<Rightarrow> real \<Rightarrow> SimulatorState \<Rightarrow> SimulatorState" where
  "toggleEcgLeadOff patientId newId date st =
     st\<lparr>simulationDataMap :=
          withSimData patientId (toggleSimData newId date) (simulationDataMap st)\<rparr>"

subsection \<open>What the specification says \<^verbatim>\<open>deletePatient\<close> selects\<close>

text \<open>
  From the specification, not from the source: "selection moves to the patient now
  occupying the same list position, or the new last patient, or null if none remain".
\<close>

definition specSelectionAfterDelete :: "Patient list \<Rightarrow> string \<Rightarrow> string option" where
  "specSelectionAfterDelete ps patientId =
     (let newPatients = filter (\<lambda>p. idP p \<noteq> patientId) ps;
          i = length (takeWhile (\<lambda>p. idP p \<noteq> patientId) ps)
      in if newPatients = [] then None
         else Some (idP (newPatients ! min i (length newPatients - 1))))"

subsection \<open>Example states\<close>

definition examplePatient :: "string \<Rightarrow> Patient" where
  "examplePatient i =
     \<lparr>idP = i, name = ''John Doe'', age = 68, gender = ''Male'', room = ''ICU-305'',
      notesP = None, diagnosis = None, personalizedThresholds = None, activeRhythm = NSR,
      pacerSettings = Some \<lparr>mode = Some Off, rate = Some 70\<rparr>, noiseSignatures = Some [],
      codeStatus = Some FULL_CODE, source = None\<rparr>"

text \<open>A registry of three patients, the second one selected.\<close>

definition threePatients :: SimulatorState where
  "threePatients =
     \<lparr>patients =
        [examplePatient ''PID00123'', examplePatient ''PID00124'', examplePatient ''PID00125''],
      selectedPatientId = Some ''PID00124'',
      simulationDataMap = []\<rparr>"

text \<open>
  A freshly created entry for an NSR patient (the draws give a heart rate of 64 and a
  respiratory rate of 15), a state with that patient alone, and a state whose Map also
  holds an entry for a patient that is not in the registry.
\<close>

definition exampleSimData :: PatientSpecificSimData where
  "exampleSimData = createInitialPatientSimData (examplePatient ''PID00123'') (1/10) (1/2) (1/2)"

definition oneEntry :: SimulatorState where
  "oneEntry =
     \<lparr>patients = [examplePatient ''PID00123''],
      selectedPatientId = Some ''PID00123'',
      simulationDataMap = [(''PID00123'', exampleSimData)]\<rparr>"

definition withOrphan :: SimulatorState where
  "withOrphan =
     \<lparr>patients = [examplePatient ''PID00123''],
      selectedPatientId = Some ''PID00123'',
      simulationDataMap = [(''PID00123'', exampleSimData), (''PID00124'', exampleSimData)]\<rparr>"

definition exampleOutput :: HeartSenseAIOutput where
  "exampleOutput =
     \<lparr>riskScore = 12, riskLevel = STABLE,
      predictionReasoning = ''Patient vitals are stable and within normal parameters.'',
      confidenceScore = Some 90\<rparr>"

text \<open>
  The examples render safe integers only, so no example applies the parameter of
  \<open>numberToString\<close>; where a closed term needs one, it is this function.
\<close>

definition exampleToString :: "real \<Rightarrow> string" where
  "exampleToString x = []"

definition exampleEnv :: TickEnv where
  "exampleEnv =
     \<lparr>dateNow = 1000, mathRandom = (\<lambda>k. 1/10), randomUUID = (\<lambda>k. ''uuid-'' @ natToString k),
      newDate = (\<lambda>k. 1000)\<rparr>"

definition exampleDetails :: PatientDetails where
  "exampleDetails =
     \<lparr>idD = None, nameD = None, ageD = None, genderD = None, roomD = Some ''ICU-306'',
      notesD = None, diagnosisD = None, personalizedThresholdsD = None, activeRhythmD = None,
      pacerSettingsD = None, noiseSignaturesD = None, codeStatusD = None, sourceD = None\<rparr>"


subsection \<open>What the specification says about the alert threshold\<close>

text \<open>
  From the specification, not from the source: "threshold is the personalized override
  for that severity if present, else the global default", and "triggered iff
  \<open>value < threshold\<close>" for the direction low, "symmetric" for the direction high.
\<close>

definition specOverride :: "MetricThresholds option \<Rightarrow> AlertSeverity \<Rightarrow> AlertType \<Rightarrow> real option" where
  "specOverride pt sev type =
     (case pt of
        None \<Rightarrow> None
      | Some t \<Rightarrow>
          (case type of
             low \<Rightarrow> (case sev of WARNING \<Rightarrow> lowWarning t | CRITICAL \<Rightarrow> lowCritical t)
           | high \<Rightarrow> (case sev of WARNING \<Rightarrow> highWarning t | CRITICAL \<Rightarrow> highCritical t)))"

definition specDefault :: "GlobalThresholds \<Rightarrow> AlertSeverity \<Rightarrow> AlertType \<Rightarrow> real option" where
  "specDefault gt sev type =
     (case type of
        low \<Rightarrow> (case sev of WARNING \<Rightarrow> Some (LOW_WARNING gt) | CRITICAL \<Rightarrow> Some (LOW_CRITICAL gt))
      | high \<Rightarrow> (case sev of WARNING \<Rightarrow> HIGH_WARNING gt | CRITICAL \<Rightarrow> HIGH_CRITICAL gt))"

definition specThreshold ::
    "GlobalThresholds \<Rightarrow> MetricThresholds option \<Rightarrow> AlertSeverity \<Rightarrow> AlertType \<Rightarrow> real option" where
  "specThreshold gt pt sev type =
     (case specOverride pt sev type of Some t \<Rightarrow> Some t | None \<Rightarrow> specDefault gt sev type)"

definition specTriggered ::
    "real \<Rightarrow> GlobalThresholds \<Rightarrow> MetricThresholds option \<Rightarrow> AlertSeverity \<Rightarrow> AlertType \<Rightarrow> bool" where
  "specTriggered v gt pt sev type =
     (case specThreshold gt pt sev type of
        None \<Rightarrow> False
      | Some threshold \<Rightarrow> (case type of low \<Rightarrow> v < threshold | high \<Rightarrow> v > threshold))"

text \<open>A personalised heart-rate override that sets the low critical threshold to 55.\<close>

definition lowCritical55 :: MetricThresholds where
  "lowCritical55 = \<lparr>lowWarning = None, lowCritical = Some 55, highWarning = None, highCritical = None\<rparr>"

text \<open>
  The example entry after one \<^verbatim>\<open>toggleEcgLeadOff\<close> (lead-off is on), and the alert that
  \<^verbatim>\<open>toggleEcgLeadOff\<close> pushes.
\<close>

definition leadOffOn :: SimulatorState where
  "leadOffOn = toggleEcgLeadOff ''PID00123'' ''uuid-0'' 1000 oneEntry"

definition leadOffAlert :: "string \<Rightarrow> real \<Rightarrow> Alert" where
  "leadOffAlert newId date =
     \<lparr>idA = newId, message = ''ECG Lead Off'', severity = CRITICAL, timestamp = date,
      metric = ''ECG''\<rparr>"

subsection \<open>A run of high-frequency ticks for one entry\<close>

text \<open>
  The entry after the ticks of the list, one after the other; each tick comes with the
  patient record found for the entry at that tick and with its environment.
\<close>

fun ecgRun :: "(Patient \<times> TickEnv) list \<Rightarrow> PatientSpecificSimData \<Rightarrow> PatientSpecificSimData" where
  "ecgRun [] sd = sd"
| "ecgRun ((patient, env) # ticks) sd = ecgRun ticks (ecgStep patient env sd)"

definition twoTicks :: "(Patient \<times> TickEnv) list" where
  "twoTicks = [(examplePatient ''PID00123'', exampleEnv), (examplePatient ''PID00123'', exampleEnv)]"

text \<open>
  The example patient in asystole. A patient in ventricular tachycardia with the pacer
  off, the same patient after \<^verbatim>\<open>updatePatientPacingSettings\<close> switched the pacer to
  demand mode at 200, the fresh entry of that patient (heart rate 180), and the entry
  after 14 high-frequency ticks with the pacer off: the beat started by the first tick
  is at sample 14 of the 16 samples of its pattern and the countdown has run out.
\<close>

definition asystolePatient :: Patient where
  "asystolePatient = (examplePatient ''PID00123'')\<lparr>activeRhythm := ASYSTOLE\<rparr>"

definition vtPatient :: Patient where
  "vtPatient = (examplePatient ''PID00123'')\<lparr>activeRhythm := VT\<rparr>"

definition vtPaced :: Patient where
  "vtPaced =
     vtPatient\<lparr>pacerSettings :=
       Some (mergePacerSettings (pacerSettings vtPatient) \<lparr>mode = Some Demand, rate = Some 200\<rparr>)\<rparr>"

definition vtEntry :: PatientSpecificSimData where
  "vtEntry = createInitialPatientSimData vtPatient (1/10) (1/2) (1/2)"

definition midBeat :: PatientSpecificSimData where
  "midBeat = ecgRun (replicate 14 (vtPatient, exampleEnv)) vtEntry"

subsection \<open>A run of low-frequency ticks for one entry, and counting alerts\<close>

text \<open>
  The entry after the low-frequency ticks of the list, as for the high-frequency run.
  The key by which \<^verbatim>\<open>checkAlert\<close> de-duplicates, and the number of alerts with a given
  message and severity.
\<close>

fun vitalsRun ::
    "(real \<Rightarrow> string) \<Rightarrow> (Patient \<times> TickEnv) list \<Rightarrow> PatientSpecificSimData \<Rightarrow>
     PatientSpecificSimData" where
  "vitalsRun toStr [] sd = sd"
| "vitalsRun toStr ((patient, env) # ticks) sd =
     vitalsRun toStr ticks (vitalsStep toStr patient env sd)"

definition alertKey :: "Alert \<Rightarrow> string \<times> AlertSeverity" where
  "alertKey a = (message a, severity a)"

definition countAlerts :: "string \<Rightarrow> AlertSeverity \<Rightarrow> Alert list \<Rightarrow> nat" where
  "countAlerts msg sev as = length (filter (\<lambda>a. message a = msg \<and> severity a = sev) as)"

text \<open>
  The example patient and entry after \<^verbatim>\<open>setPatientRhythm\<close> to third-degree AV block
  (target rate 40, displayed rate still 64), the environment of a later tick, and eight
  low-frequency ticks.
\<close>

definition blockPatient :: Patient where
  "blockPatient = (examplePatient ''PID00123'')\<lparr>activeRhythm := THIRD_DEGREE_AV_BLOCK\<rparr>"

definition blockEntry :: PatientSpecificSimData where
  "blockEntry = exampleSimData\<lparr>currentTargetHeartRate := 40\<rparr>"

definition laterEnv :: TickEnv where
  "laterEnv =
     \<lparr>dateNow = 2000, mathRandom = (\<lambda>k. 1/10),
      randomUUID = (\<lambda>k. ''uuid-'' @ natToString (10 + k)), newDate = (\<lambda>k. 2000)\<rparr>"

definition eightTicks :: "(Patient \<times> TickEnv) list" where
  "eightTicks = replicate 8 (blockPatient, exampleEnv)"

text \<open>
  The same patient after \<^verbatim>\<open>updatePatientPacingSettings\<close> also switched the pacer to
  demand mode at 60: the rhythm's own rate (40, also the target rate of the entry) is
  below the pacer rate, the displayed rate of the entry (64) is above it.
\<close>

definition blockPaced :: Patient where
  "blockPaced =
     blockPatient\<lparr>pacerSettings :=
       Some (mergePacerSettings (pacerSettings blockPatient)
               \<lparr>mode = Some Demand, rate = Some 60\<rparr>)\<rparr>"

section \<open>Properties\<close>

subsection \<open>Selection after \<^verbatim>\<open>deletePatient\<close>\<close>

lemma filter_Cons_holds: "filter P xs = y # ys \<Longrightarrow> P y"
proof -
  assume "filter P xs = y # ys"
  then have "y \<in> set (filter P xs)" by simp
  then show "P y" by simp
qed

text \<open>
  C1 (as the code has it). When the selected patient is deleted, the registry keeps the
  other patients in their order and the selection becomes the first patient of the new
  registry, or null when the registry is empty; it is never the deleted id.
\<close>

theorem deletePatient_selects_first:
  "selectedPatientId st = Some patientId \<Longrightarrow>
   patients (deletePatient patientId st) = filter (\<lambda>p. idP p \<noteq> patientId) (patients st) \<and>
   selectedPatientId (deletePatient patientId st) =
     (case patients (deletePatient patientId st) of [] \<Rightarrow> None | p # rest \<Rightarrow> Some (idP p)) \<and>
   selectedPatientId (deletePatient patientId st) \<noteq> Some patientId"
  by (auto simp: deletePatient_def Let_def split: list.splits dest: filter_Cons_holds)

theorem deletePatient_selects_first_witness:
  "selectedPatientId threePatients = Some ''PID00124'' \<and>
   map idP (patients (deletePatient ''PID00124'' threePatients)) = [''PID00123'', ''PID00125''] \<and>
   selectedPatientId (deletePatient ''PID00124'' threePatients) = Some ''PID00123''"
  using deletePatient_selects_first [of threePatients "''PID00124''"]
  by (simp add: threePatients_def examplePatient_def)

text \<open>
  C1 as stated fails: with three patients and the second one selected, deleting the
  second selects the first patient, where the stated rule gives the patient that moved
  into the second position.
\<close>

theorem deletePatient_same_position_counterexample:
  "selectedPatientId (deletePatient ''PID00124'' threePatients) = Some ''PID00123'' \<and>
   specSelectionAfterDelete (patients threePatients) ''PID00124'' = Some ''PID00125''"
  by (simp add: deletePatient_def threePatients_def examplePatient_def
      specSelectionAfterDelete_def Let_def)

subsection \<open>A resolved analysis after \<^verbatim>\<open>deletePatient\<close>\<close>

lemma map_of_delete_same: "map_of (AList.delete k al) k = None"
  by (simp add: delete_conv')

lemma withSimData_absent: "map_of m k = None \<Longrightarrow> withSimData k f m = m"
  by (simp add: withSimData_def)

text \<open>
  C8. After \<^verbatim>\<open>deletePatient(id)\<close>, whatever the state was before (so also with an analysis
  for \<open>id\<close> in flight), the completion callback of the analysis, on success and on
  failure, returns the Map it was given: no entry for \<open>id\<close> comes back. The callbacks
  have no throwing path (they are total functions of the previous Map).
\<close>

theorem resolution_after_delete_discarded:
  "aiResolved patientId aiOutput now (simulationDataMap (deletePatient patientId st)) =
     simulationDataMap (deletePatient patientId st) \<and>
   aiRejected patientId errorMessage now (simulationDataMap (deletePatient patientId st)) =
     simulationDataMap (deletePatient patientId st) \<and>
   map_of (aiResolved patientId aiOutput now (simulationDataMap (deletePatient patientId st)))
     patientId = None \<and>
   map_of (aiRejected patientId errorMessage now (simulationDataMap (deletePatient patientId st)))
     patientId = None"
  by (simp add: aiResolved_def aiRejected_def deletePatient_def Let_def map_of_delete_same)

theorem resolution_after_delete_discarded_witness:
  "map_of (simulationDataMap oneEntry) ''PID00123'' = Some exampleSimData \<and>
   simulationDataMap (deletePatient ''PID00123'' oneEntry) = [] \<and>
   aiResolved ''PID00123'' exampleOutput 5000 (simulationDataMap (deletePatient ''PID00123'' oneEntry)) = [] \<and>
   aiRejected ''PID00123'' ''Mock analysis failed.'' 5000
     (simulationDataMap (deletePatient ''PID00123'' oneEntry)) = []"
  using resolution_after_delete_discarded [of "''PID00123''" exampleOutput 5000 oneEntry "''Mock analysis failed.''"]
  by (simp add: oneEntry_def deletePatient_def)


subsection \<open>Operations on an id that is not there\<close>

lemma map_unchanged: "k \<notin> idP ` set ps \<Longrightarrow> map (\<lambda>p. if idP p = k then f p else p) ps = ps"
  by (induction ps) auto

text \<open>
  C9 (as the code has it). For an id that is neither in the registry nor a key of the
  simulation Map, each of the eight operations leaves the registry and the Map as they
  were. All but \<^verbatim>\<open>selectPatient\<close> return the state unchanged; \<^verbatim>\<open>selectPatient\<close> (lines
  549-551) has no test for the id and stores it as the selection. None of them has a
  throwing path on this input (they are total functions of the state).
\<close>

theorem missing_id_is_noop:
  assumes "patientId \<notin> idP ` set (patients st)"
    and "patientId \<notin> fst ` set (simulationDataMap st)"
  shows "patients (selectPatient patientId st) = patients st \<and>
     simulationDataMap (selectPatient patientId st) = simulationDataMap st \<and>
     selectedPatientId (selectPatient patientId st) = Some patientId \<and>
     updatePatientDetails patientId details st = st \<and>
     setPatientRhythm patientId rhythm u st = st \<and>
     acknowledgePatientAlerts patientId alertTypeToAcknowledge st = st \<and>
     updatePatientPacingSettings patientId settings st = st \<and>
     updatePatientNoiseSignatures patientId signatures st = st \<and>
     provideAlarmFeedback patientId feedbackType alertSeverity env st = st \<and>
     toggleEcgLeadOff patientId newId date st = st"
proof -
  from assms(2) have none: "map_of (simulationDataMap st) patientId = None"
    by (simp add: map_of_eq_None_iff)
  show ?thesis
    using assms(1)
    by (simp add: selectPatient_def updatePatientDetails_def setPatientRhythm_def
        acknowledgePatientAlerts_def updatePatientPacingSettings_def
        updatePatientNoiseSignatures_def provideAlarmFeedback_def toggleEcgLeadOff_def
        map_unchanged withSimData_absent [OF none])
qed


theorem missing_id_is_noop_witness:
  "''PID99999'' \<notin> idP ` set (patients oneEntry) \<and>
   ''PID99999'' \<notin> fst ` set (simulationDataMap oneEntry) \<and>
   patients (selectPatient ''PID99999'' oneEntry) = patients oneEntry \<and>
   simulationDataMap (selectPatient ''PID99999'' oneEntry) = simulationDataMap oneEntry \<and>
   selectedPatientId (selectPatient ''PID99999'' oneEntry) = Some ''PID99999'' \<and>
   updatePatientDetails ''PID99999'' exampleDetails oneEntry = oneEntry \<and>
   setPatientRhythm ''PID99999'' VT (1/2) oneEntry = oneEntry \<and>
   acknowledgePatientAlerts ''PID99999'' None oneEntry = oneEntry \<and>
   updatePatientPacingSettings ''PID99999'' \<lparr>mode = Some Demand, rate = None\<rparr> oneEntry = oneEntry \<and>
   updatePatientNoiseSignatures ''PID99999'' [''motion''] oneEntry = oneEntry \<and>
   provideAlarmFeedback ''PID99999'' true_positive CRITICAL exampleEnv oneEntry = oneEntry \<and>
   toggleEcgLeadOff ''PID99999'' ''uuid-0'' 1000 oneEntry = oneEntry"
proof -
  have a: "''PID99999'' \<notin> idP ` set (patients oneEntry)"
    by (simp add: oneEntry_def examplePatient_def)
  have b: "''PID99999'' \<notin> fst ` set (simulationDataMap oneEntry)"
    by (simp add: oneEntry_def)
  show ?thesis
    using a b missing_id_is_noop [OF a b] by simp
qed

text \<open>
  C9 as stated fails for \<^verbatim>\<open>selectPatient\<close>: called with an id that is in neither
  collection while patient \<^verbatim>\<open>PID00123\<close> is selected, it makes the missing id the
  selection, so the call is not a no-op.
\<close>

theorem selectPatient_missing_id_counterexample:
  "''PID99999'' \<notin> idP ` set (patients oneEntry) \<and>
   ''PID99999'' \<notin> fst ` set (simulationDataMap oneEntry) \<and>
   selectedPatientId oneEntry = Some ''PID00123'' \<and>
   selectedPatientId (selectPatient ''PID99999'' oneEntry) = Some ''PID99999'' \<and>
   selectPatient ''PID99999'' oneEntry \<noteq> oneEntry"
proof -
  have "selectedPatientId (selectPatient ''PID99999'' oneEntry) \<noteq> selectedPatientId oneEntry"
    by (simp add: selectPatient_def oneEntry_def)
  then have "selectPatient ''PID99999'' oneEntry \<noteq> oneEntry"
    by auto
  then show ?thesis
    by (simp add: selectPatient_def oneEntry_def examplePatient_def)
qed



subsection \<open>Entries without a patient in the two loops\<close>

lemma ecgTick_fold_absent:
  "find (\<lambda>p. idP p = k) ps = None \<Longrightarrow>
   map_of (foldl (\<lambda>newMap (patientId, currentSimData).
              case find (\<lambda>p. idP p = patientId) ps of
                None \<Rightarrow> newMap
              | Some patient \<Rightarrow>
                  AList.update patientId (ecgStep patient (env patientId) currentSimData) newMap)
       acc m) k = map_of acc k"
proof (induction m arbitrary: acc)
  case Nil
  then show ?case by simp
next
  case (Cons e m)
  obtain k' sd where e: "e = (k', sd)" by (cases e)
  show ?case
  proof (cases "find (\<lambda>p. idP p = k') ps")
    case None
    then show ?thesis using Cons e by simp
  next
    case (Some p)
    with Cons.prems have "k' \<noteq> k" by auto
    then show ?thesis using Cons Some e by (simp add: update_conv')
  qed
qed

lemma vitalsTick_fold_other:
  "k \<notin> fst ` set m \<Longrightarrow>
   map_of (foldl (\<lambda>newMap (patientId, simData).
              case find (\<lambda>p. idP p = patientId) ps of
                None \<Rightarrow> AList.update patientId simData newMap
              | Some patient \<Rightarrow>
                  AList.update patientId (vitalsStep toStr patient (env patientId) simData) newMap)
       acc m) k = map_of acc k"
proof (induction m arbitrary: acc)
  case Nil
  then show ?case by simp
next
  case (Cons e m)
  obtain k' sd where e: "e = (k', sd)" by (cases e)
  with Cons.prems have ne: "k' \<noteq> k" and notin: "k \<notin> fst ` set m" by auto
  show ?case
    using Cons.IH [OF notin] ne e
    by (cases "find (\<lambda>p. idP p = k') ps") (simp_all add: update_conv')
qed

lemma vitalsTick_fold_orphan:
  "distinct (map fst m) \<Longrightarrow> map_of m k = Some sd \<Longrightarrow> find (\<lambda>p. idP p = k) ps = None \<Longrightarrow>
   map_of (foldl (\<lambda>newMap (patientId, simData).
              case find (\<lambda>p. idP p = patientId) ps of
                None \<Rightarrow> AList.update patientId simData newMap
              | Some patient \<Rightarrow>
                  AList.update patientId (vitalsStep toStr patient (env patientId) simData) newMap)
       acc m) k = Some sd"
proof (induction m arbitrary: acc)
  case Nil
  then show ?case by simp
next
  case (Cons e m)
  obtain k' sd' where e: "e = (k', sd')" by (cases e)
  show ?case
  proof (cases "k' = k")
    case True
    with Cons.prems e have sd: "sd' = sd" and notin: "k \<notin> fst ` set m" by auto
    show ?thesis
      using vitalsTick_fold_other [OF notin] Cons.prems(3) True e sd
      by (simp add: update_conv')
  next
    case False
    with Cons.prems e have "distinct (map fst m)" and "map_of m k = Some sd" by auto
    then show ?thesis
      using Cons.IH Cons.prems(3) e by simp
  qed
qed

text \<open>
  C10. An entry of the simulation Map whose id has no patient in the registry is absent
  from the Map that a high-frequency tick returns, and is carried over unchanged by a
  low-frequency tick.
\<close>

theorem orphan_entry_dropped_or_kept:
  assumes "patientId \<notin> idP ` set ps"
    and "distinct (map fst prevMap)"
    and "map_of prevMap patientId = Some simData"
  shows "map_of (ecgTick ps env prevMap) patientId = None \<and>
     patientId \<notin> fst ` set (ecgTick ps env prevMap) \<and>
     map_of (vitalsTick toStr ps env' prevMap) patientId = Some simData"
proof -
  from assms(1) have nf: "find (\<lambda>p. idP p = patientId) ps = None"
    by (auto simp: find_None_iff)
  have e: "map_of (ecgTick ps env prevMap) patientId = None"
    unfolding ecgTick_def using ecgTick_fold_absent [OF nf, of env "[]" prevMap] by simp
  have v: "map_of (vitalsTick toStr ps env' prevMap) patientId = Some simData"
    unfolding vitalsTick_def using vitalsTick_fold_orphan [OF assms(2) assms(3) nf] by simp
  from e have "patientId \<notin> fst ` set (ecgTick ps env prevMap)"
    by (simp add: map_of_eq_None_iff)
  with e v show ?thesis by simp
qed

theorem orphan_entry_dropped_or_kept_witness:
  "''PID00124'' \<notin> idP ` set (patients withOrphan) \<and>
   distinct (map fst (simulationDataMap withOrphan)) \<and>
   map_of (simulationDataMap withOrphan) ''PID00124'' = Some exampleSimData \<and>
   map_of (ecgTick (patients withOrphan) (\<lambda>k. exampleEnv) (simulationDataMap withOrphan))
     ''PID00124'' = None \<and>
   map_of (vitalsTick exampleToString (patients withOrphan) (\<lambda>k. exampleEnv)
             (simulationDataMap withOrphan))
     ''PID00124'' = Some exampleSimData"
proof -
  have a: "''PID00124'' \<notin> idP ` set (patients withOrphan)"
    by (simp add: withOrphan_def examplePatient_def)
  have b: "distinct (map fst (simulationDataMap withOrphan))"
    by (simp add: withOrphan_def)
  have c: "map_of (simulationDataMap withOrphan) ''PID00124'' = Some exampleSimData"
    by (simp add: withOrphan_def)
  show ?thesis
    using a b c
      orphan_entry_dropped_or_kept [OF a b c, where env = "\<lambda>k. exampleEnv"
        and env' = "\<lambda>k. exampleEnv" and toStr = exampleToString]
    by simp
qed

subsection \<open>The alert engine's trigger rule\<close>

lemma alertThreshold_spec: "alertThreshold gt pt sev type = specThreshold gt pt sev type"
  by (cases pt; cases sev; cases type)
    (auto simp: alertThreshold_def specThreshold_def specOverride_def specDefault_def nullish_def
      split: option.splits)

text \<open>
  C6. \<^verbatim>\<open>checkAlert\<close> triggers exactly when the specification's rule does: for the
  direction low iff the value is below the threshold, for the direction high iff it is
  above, where the threshold is the patient's override for that severity and direction
  when present and the global default otherwise (no alert when neither exists). A
  triggered check pushes its alert unless one with the same message and severity is
  there; a check that is not triggered leaves the alerts as they are.
\<close>

theorem checkAlert_trigger_rule:
  "isTriggered v gt pt sev type = specTriggered v gt pt sev type \<and>
   checkAlert toStr metricName v gt pt sev type newId date newAlerts =
     (if specTriggered v gt pt sev type \<and>
         \<not> list_ex (\<lambda>a. message a = alertMessage toStr metricName type v \<and> severity a = sev) newAlerts
      then newAlerts @
             [\<lparr>idA = newId, message = alertMessage toStr metricName type v, severity = sev,
               timestamp = date, metric = metricName\<rparr>]
      else newAlerts)"
proof -
  have t: "isTriggered v gt pt sev type = specTriggered v gt pt sev type"
    by (cases type)
      (simp_all add: isTriggered_def specTriggered_def alertThreshold_spec split: option.splits)
  show ?thesis
    by (simp add: t checkAlert_def Let_def flip: t)
qed

lemma natToString_50: "natToString 50 = ''50''"
  by (simp add: natToString.simps [of 50] natToString.simps [of 5] digitChar_def)

lemma numberToString_50: "numberToString toStr 50 = ''50''"
  by (simp add: numberToString_def natToString_50)

theorem checkAlert_trigger_rule_witness:
  "isTriggered 50 ALERT_THRESHOLDS_HEART_RATE (Some lowCritical55) CRITICAL low \<and>
   \<not> isTriggered 50 ALERT_THRESHOLDS_HEART_RATE None CRITICAL low \<and>
   \<not> isTriggered 50 ALERT_THRESHOLDS_HEART_RATE (Some lowCritical55) WARNING low \<and>
   isTriggered 131 ALERT_THRESHOLDS_HEART_RATE (Some lowCritical55) CRITICAL high \<and>
   \<not> isTriggered 131 ALERT_THRESHOLDS_SPO2 None CRITICAL high \<and>
   checkAlert exampleToString ''Heart Rate'' 50 ALERT_THRESHOLDS_HEART_RATE (Some lowCritical55)
     CRITICAL low ''uuid-0'' 1000 [] =
     [\<lparr>idA = ''uuid-0'', message = ''Heart Rate Low: 50'', severity = CRITICAL, timestamp = 1000,
       metric = ''Heart Rate''\<rparr>]"
  using checkAlert_trigger_rule [of 50 ALERT_THRESHOLDS_HEART_RATE "Some lowCritical55" CRITICAL low
      exampleToString "''Heart Rate''" "''uuid-0''" 1000 "[]"]
    checkAlert_trigger_rule [of 50 ALERT_THRESHOLDS_HEART_RATE None CRITICAL low]
    checkAlert_trigger_rule [of 50 ALERT_THRESHOLDS_HEART_RATE "Some lowCritical55" WARNING low]
    checkAlert_trigger_rule [of 131 ALERT_THRESHOLDS_HEART_RATE "Some lowCritical55" CRITICAL high]
    checkAlert_trigger_rule [of 131 ALERT_THRESHOLDS_SPO2 None CRITICAL high]
  by (simp add: specTriggered_def specThreshold_def specOverride_def specDefault_def
      lowCritical55_def ALERT_THRESHOLDS_HEART_RATE_def ALERT_THRESHOLDS_SPO2_def
      alertMessage_def numberToString_50)

subsection \<open>\<^verbatim>\<open>toggleEcgLeadOff\<close> twice, and a tick with the lead off\<close>

lemma withSimData_twice:
  "withSimData k f (withSimData k g m) = withSimData k (\<lambda>sd. f (g sd)) m"
  by (cases "map_of m k") (simp_all add: withSimData_def update_conv')

lemma withSimData_same:
  "(\<And>sd. map_of m k = Some sd \<Longrightarrow> f sd = sd) \<Longrightarrow> withSimData k f m = m"
  by (cases "map_of m k") (simp_all add: withSimData_def update_triv)

lemma filter_lead_off_absent:
  "\<not> list_ex (\<lambda>a. message a = ''ECG Lead Off'') as \<Longrightarrow>
   filter (\<lambda>a. message a \<noteq> ''ECG Lead Off'') as = as"
  by (induction as) auto

lemma toggleSimData_twice_off:
  "\<not> isLeadOff sd \<Longrightarrow> \<not> list_ex (\<lambda>a. message a = ''ECG Lead Off'') (alerts sd) \<Longrightarrow>
   toggleSimData id2 d2 (toggleSimData id1 d1 sd) = sd"
  by (simp add: toggleSimData_def Let_def filter_lead_off_absent)

lemma toggleSimData_twice_on:
  "isLeadOff sd \<Longrightarrow>
   toggleSimData id2 d2 (toggleSimData id1 d1 sd) =
     sd\<lparr>alerts := filter (\<lambda>a. message a \<noteq> ''ECG Lead Off'') (alerts sd) @ [leadOffAlert id2 d2]\<rparr>"
  by (simp add: toggleSimData_def Let_def leadOffAlert_def list_ex_iff)

lemma leadOffStep_sample:
  "valueE (last (ecgData (leadOffStep sd))) = 0 \<and> heartRate (metrics (leadOffStep sd)) = 0"
  by (simp add: leadOffStep_def Let_def slide_def)

text \<open>
  C7 (as the code has it). For a patient with an entry: when lead-off is off and no
  lead-off alert is present, two calls of \<^verbatim>\<open>toggleEcgLeadOff\<close> return the whole state;
  when lead-off is on, two calls restore the flag and every other field and alert, and
  put a fresh lead-off alert (the new id and date) at the end of the alerts in place of
  the old one. While lead-off is on, the ECG sample that a high-frequency tick appends
  is 0 and the tick sets the heart rate to 0, whatever the patient's rhythm.
\<close>

theorem toggle_twice_and_lead_off_tick:
  assumes "map_of (simulationDataMap st) patientId = Some simData"
  shows "(\<not> isLeadOff simData \<and> \<not> list_ex (\<lambda>a. message a = ''ECG Lead Off'') (alerts simData) \<longrightarrow>
       toggleEcgLeadOff patientId id2 d2 (toggleEcgLeadOff patientId id1 d1 st) = st) \<and>
     (isLeadOff simData \<longrightarrow>
       map_of (simulationDataMap
                 (toggleEcgLeadOff patientId id2 d2 (toggleEcgLeadOff patientId id1 d1 st)))
         patientId =
       Some (simData\<lparr>alerts := filter (\<lambda>a. message a \<noteq> ''ECG Lead Off'') (alerts simData) @
                                   [leadOffAlert id2 d2]\<rparr>)) \<and>
     (isLeadOff simData \<longrightarrow>
       valueE (last (ecgData (ecgStep patient env simData))) = 0 \<and>
       heartRate (metrics (ecgStep patient env simData)) = 0)"
proof -
  have two: "simulationDataMap (toggleEcgLeadOff patientId id2 d2 (toggleEcgLeadOff patientId id1 d1 st)) =
      withSimData patientId (\<lambda>sd. toggleSimData id2 d2 (toggleSimData id1 d1 sd)) (simulationDataMap st)"
    by (simp add: toggleEcgLeadOff_def withSimData_twice)
  have off: "toggleEcgLeadOff patientId id2 d2 (toggleEcgLeadOff patientId id1 d1 st) = st"
    if "\<not> isLeadOff simData" "\<not> list_ex (\<lambda>a. message a = ''ECG Lead Off'') (alerts simData)"
  proof -
    have "withSimData patientId (\<lambda>sd. toggleSimData id2 d2 (toggleSimData id1 d1 sd))
            (simulationDataMap st) = simulationDataMap st"
      using assms that by (intro withSimData_same) (simp add: toggleSimData_twice_off)
    then show ?thesis
      using two by (simp add: toggleEcgLeadOff_def)
  qed
  have on: "map_of (simulationDataMap
                 (toggleEcgLeadOff patientId id2 d2 (toggleEcgLeadOff patientId id1 d1 st)))
         patientId =
       Some (simData\<lparr>alerts := filter (\<lambda>a. message a \<noteq> ''ECG Lead Off'') (alerts simData) @
                                   [leadOffAlert id2 d2]\<rparr>)"
    if "isLeadOff simData"
    using assms that by (simp add: two withSimData_def update_conv' toggleSimData_twice_on)
  have tick: "valueE (last (ecgData (ecgStep patient env simData))) = 0 \<and>
       heartRate (metrics (ecgStep patient env simData)) = 0"
    if "isLeadOff simData"
    using that leadOffStep_sample [of simData] by (simp add: ecgStep_def)
  from off on tick show ?thesis by blast
qed

lemma exampleSimData_fields:
  "alerts exampleSimData = []" "isLeadOff exampleSimData = False"
  by (simp_all add: exampleSimData_def createInitialPatientSimData_def Let_def)

lemma leadOffOn_map:
  "simulationDataMap leadOffOn = [(''PID00123'', toggleSimData ''uuid-0'' 1000 exampleSimData)]"
  by (simp add: leadOffOn_def toggleEcgLeadOff_def oneEntry_def withSimData_def)

lemma toggled_fields:
  "alerts (toggleSimData ''uuid-0'' 1000 exampleSimData) = [leadOffAlert ''uuid-0'' 1000]"
  "isLeadOff (toggleSimData ''uuid-0'' 1000 exampleSimData) = True"
  by (simp_all add: toggleSimData_def Let_def exampleSimData_fields leadOffAlert_def)

theorem toggle_twice_and_lead_off_tick_witness:
  "map_of (simulationDataMap oneEntry) ''PID00123'' = Some exampleSimData \<and>
   \<not> isLeadOff exampleSimData \<and>
   \<not> list_ex (\<lambda>a. message a = ''ECG Lead Off'') (alerts exampleSimData) \<and>
   toggleEcgLeadOff ''PID00123'' ''uuid-1'' 2000 (toggleEcgLeadOff ''PID00123'' ''uuid-0'' 1000 oneEntry) =
     oneEntry \<and>
   map_of (simulationDataMap leadOffOn) ''PID00123'' =
     Some (toggleSimData ''uuid-0'' 1000 exampleSimData) \<and>
   isLeadOff (toggleSimData ''uuid-0'' 1000 exampleSimData) \<and>
   map_of (simulationDataMap
      (toggleEcgLeadOff ''PID00123'' ''uuid-2'' 3000 (toggleEcgLeadOff ''PID00123'' ''uuid-1'' 2000 leadOffOn)))
     ''PID00123'' =
     Some ((toggleSimData ''uuid-0'' 1000 exampleSimData)\<lparr>alerts := [leadOffAlert ''uuid-2'' 3000]\<rparr>) \<and>
   valueE (last (ecgData (ecgStep (examplePatient ''PID00123'') exampleEnv
      (toggleSimData ''uuid-0'' 1000 exampleSimData)))) = 0 \<and>
   heartRate (metrics (ecgStep (examplePatient ''PID00123'') exampleEnv
      (toggleSimData ''uuid-0'' 1000 exampleSimData))) = 0"
proof -
  have a: "map_of (simulationDataMap oneEntry) ''PID00123'' = Some exampleSimData"
    by (simp add: oneEntry_def)
  have b: "map_of (simulationDataMap leadOffOn) ''PID00123'' =
     Some (toggleSimData ''uuid-0'' 1000 exampleSimData)"
    by (simp add: leadOffOn_map)
  show ?thesis
    using a b
      toggle_twice_and_lead_off_tick [OF a, of "''uuid-1''" 2000 "''uuid-0''" 1000]
      toggle_twice_and_lead_off_tick [OF b, of "''uuid-2''" 3000 "''uuid-1''" 2000
        "examplePatient ''PID00123''" exampleEnv]
    by (simp add: exampleSimData_fields toggled_fields leadOffAlert_def)
qed

text \<open>
  C7 as stated fails when lead-off is on at the start: after two calls the alert
  collection holds a lead-off alert with another id and date than the original one.
\<close>

theorem toggle_twice_restores_alerts_counterexample:
  "map (\<lambda>(k, sd). (isLeadOff sd, alerts sd)) (simulationDataMap leadOffOn) =
     [(True, [leadOffAlert ''uuid-0'' 1000])] \<and>
   map (\<lambda>(k, sd). (isLeadOff sd, alerts sd))
     (simulationDataMap
        (toggleEcgLeadOff ''PID00123'' ''uuid-2'' 3000
           (toggleEcgLeadOff ''PID00123'' ''uuid-1'' 2000 leadOffOn))) =
     [(True, [leadOffAlert ''uuid-2'' 3000])] \<and>
   leadOffAlert ''uuid-2'' 3000 \<noteq> leadOffAlert ''uuid-0'' 1000"
  by (simp add: leadOffOn_map toggleEcgLeadOff_def withSimData_def toggleSimData_twice_on
       toggled_fields leadOffAlert_def)

subsection \<open>The waveform buffers over a run of ticks\<close>

lemma ecgRun_snoc: "ecgRun (ticks @ [(patient, env)]) sd = ecgStep patient env (ecgRun ticks sd)"
  by (induction ticks arbitrary: sd) auto

lemma length_slide: "buf \<noteq> [] \<Longrightarrow> length (slide buf pt) = length buf"
  by (cases buf) (simp_all add: slide_def)

lemma slide_nonempty: "slide buf pt \<noteq> []"
  by (simp add: slide_def)

lemma last_slide: "last (slide buf pt) = pt"
  by (simp add: slide_def)

lemma ecgStep_counter:
  "ecgCurrentTime (ecgStep patient env sd) = ecgCurrentTime sd + 1"
  "isLeadOff (ecgStep patient env sd) = isLeadOff sd"
  by (simp_all add: ecgStep_def leadOffStep_def rhythmStep_def Let_def)

lemma ecgStep_lengths:
  "ecgData sd \<noteq> [] \<Longrightarrow> length (ecgData (ecgStep patient env sd)) = length (ecgData sd)"
  "spo2WaveData sd \<noteq> [] \<Longrightarrow> length (spo2WaveData (ecgStep patient env sd)) = length (spo2WaveData sd)"
  "respWaveData sd \<noteq> [] \<Longrightarrow> length (respWaveData (ecgStep patient env sd)) = length (respWaveData sd)"
  by (simp_all add: ecgStep_def leadOffStep_def rhythmStep_def Let_def length_slide)

lemma ecgStep_nonempty:
  "ecgData (ecgStep patient env sd) \<noteq> []"
  "spo2WaveData (ecgStep patient env sd) \<noteq> []"
  "respWaveData (ecgStep patient env sd) \<noteq> []"
  by (simp_all add: ecgStep_def leadOffStep_def rhythmStep_def Let_def slide_nonempty)

lemma ecgStep_newest:
  "timeE (last (ecgData (ecgStep patient env sd))) = ecgCurrentTime sd"
  "timeE (last (spo2WaveData (ecgStep patient env sd))) =
     ecgCurrentTime sd + (if isLeadOff sd then 0 else 1)"
  "timeE (last (respWaveData (ecgStep patient env sd))) =
     ecgCurrentTime sd + (if isLeadOff sd then 0 else 1)"
  by (simp_all add: ecgStep_def leadOffStep_def rhythmStep_def Let_def last_slide)

lemma ecgStep_slides:
  "butlast (ecgData (ecgStep patient env sd)) = tl (ecgData sd)"
  "butlast (spo2WaveData (ecgStep patient env sd)) = tl (spo2WaveData sd)"
  "butlast (respWaveData (ecgStep patient env sd)) = tl (respWaveData sd)"
  by (simp_all add: ecgStep_def leadOffStep_def rhythmStep_def Let_def slide_def)

lemma ecgRun_counter:
  "ecgCurrentTime (ecgRun ticks sd) = ecgCurrentTime sd + length ticks"
  "isLeadOff (ecgRun ticks sd) = isLeadOff sd"
  by (induction ticks arbitrary: sd) (auto simp: ecgStep_counter)

lemma ecgRun_lengths:
  "ecgData sd \<noteq> [] \<Longrightarrow> length (ecgData (ecgRun ticks sd)) = length (ecgData sd)"
  "spo2WaveData sd \<noteq> [] \<Longrightarrow> length (spo2WaveData (ecgRun ticks sd)) = length (spo2WaveData sd)"
  "respWaveData sd \<noteq> [] \<Longrightarrow> length (respWaveData (ecgRun ticks sd)) = length (respWaveData sd)"
  by (induction ticks arbitrary: sd) (auto simp: ecgStep_lengths ecgStep_nonempty)

lemma ecgRun_newest:
  assumes "ticks \<noteq> []"
  shows "Suc (timeE (last (ecgData (ecgRun ticks sd)))) = ecgCurrentTime sd + length ticks"
    and "Suc (timeE (last (spo2WaveData (ecgRun ticks sd)))) =
           ecgCurrentTime sd + length ticks + (if isLeadOff sd then 0 else 1)"
    and "Suc (timeE (last (respWaveData (ecgRun ticks sd)))) =
           ecgCurrentTime sd + length ticks + (if isLeadOff sd then 0 else 1)"
proof -
  obtain ts patient env where t: "ticks = ts @ [(patient, env)]"
    using assms by (cases ticks rule: rev_cases) auto
  show "Suc (timeE (last (ecgData (ecgRun ticks sd)))) = ecgCurrentTime sd + length ticks"
    by (simp add: t ecgRun_snoc ecgStep_newest ecgRun_counter)
  show "Suc (timeE (last (spo2WaveData (ecgRun ticks sd)))) =
           ecgCurrentTime sd + length ticks + (if isLeadOff sd then 0 else 1)"
    by (simp add: t ecgRun_snoc ecgStep_newest ecgRun_counter)
  show "Suc (timeE (last (respWaveData (ecgRun ticks sd)))) =
           ecgCurrentTime sd + length ticks + (if isLeadOff sd then 0 else 1)"
    by (simp add: t ecgRun_snoc ecgStep_newest ecgRun_counter)
qed

text \<open>
  C5 (as the code has it). Over any run of high-frequency ticks, each of the three
  buffers that starts non-empty keeps its length, and every tick drops the oldest sample
  and appends one. The sample counter \<^verbatim>\<open>ecgCurrentTime\<close> grows by one per tick and is
  never reset, a tick does not change the lead-off flag, and the ECG sample appended by
  a tick carries the counter before the tick. From the second tick of a run on, the
  newest index of each of the three buffers is one greater than the previous newest.
\<close>

theorem waveform_buffers_over_ticks:
  assumes "ecgData sd \<noteq> []" and "spo2WaveData sd \<noteq> []" and "respWaveData sd \<noteq> []"
  shows "length (ecgData (ecgRun ticks sd)) = length (ecgData sd) \<and>
     length (spo2WaveData (ecgRun ticks sd)) = length (spo2WaveData sd) \<and>
     length (respWaveData (ecgRun ticks sd)) = length (respWaveData sd) \<and>
     ecgCurrentTime (ecgRun ticks sd) = ecgCurrentTime sd + length ticks \<and>
     isLeadOff (ecgRun ticks sd) = isLeadOff sd \<and>
     butlast (ecgData (ecgStep patient env (ecgRun ticks sd))) = tl (ecgData (ecgRun ticks sd)) \<and>
     butlast (spo2WaveData (ecgStep patient env (ecgRun ticks sd))) =
       tl (spo2WaveData (ecgRun ticks sd)) \<and>
     butlast (respWaveData (ecgStep patient env (ecgRun ticks sd))) =
       tl (respWaveData (ecgRun ticks sd)) \<and>
     timeE (last (ecgData (ecgStep patient env (ecgRun ticks sd)))) =
       ecgCurrentTime (ecgRun ticks sd) \<and>
     (ticks \<noteq> [] \<longrightarrow>
        timeE (last (ecgData (ecgStep patient env (ecgRun ticks sd)))) =
          timeE (last (ecgData (ecgRun ticks sd))) + 1 \<and>
        timeE (last (spo2WaveData (ecgStep patient env (ecgRun ticks sd)))) =
          timeE (last (spo2WaveData (ecgRun ticks sd))) + 1 \<and>
        timeE (last (respWaveData (ecgStep patient env (ecgRun ticks sd)))) =
          timeE (last (respWaveData (ecgRun ticks sd))) + 1)"
  using assms ecgRun_newest [of ticks sd]
  by (simp add: ecgRun_lengths ecgRun_counter ecgStep_newest ecgStep_slides)

lemma MAX_ECG_DATA_POINTS_400: "MAX_ECG_DATA_POINTS = 400"
  by (simp add: MAX_ECG_DATA_POINTS_def ECG_TIME_WINDOW_SECONDS_def SIMULATION_ECG_INTERVAL_MS_def)

lemma exampleSimData_buffers:
  "length (ecgData exampleSimData) = 400"
  "length (spo2WaveData exampleSimData) = 400"
  "length (respWaveData exampleSimData) = 400"
  "ecgCurrentTime exampleSimData = 0"
  by (simp_all add: exampleSimData_def createInitialPatientSimData_def Let_def
      getInitialEcgData_def getInitialSpo2Data_def getInitialRespData_def MAX_ECG_DATA_POINTS_400)

lemma exampleSimData_nonempty:
  "ecgData exampleSimData \<noteq> []" "spo2WaveData exampleSimData \<noteq> []"
  "respWaveData exampleSimData \<noteq> []"
  using exampleSimData_buffers by auto

theorem waveform_buffers_over_ticks_witness:
  "ecgData exampleSimData \<noteq> [] \<and> spo2WaveData exampleSimData \<noteq> [] \<and>
   respWaveData exampleSimData \<noteq> [] \<and> twoTicks \<noteq> [] \<and>
   length (ecgData (ecgRun twoTicks exampleSimData)) = 400 \<and>
   length (spo2WaveData (ecgRun twoTicks exampleSimData)) = 400 \<and>
   length (respWaveData (ecgRun twoTicks exampleSimData)) = 400 \<and>
   ecgCurrentTime (ecgRun twoTicks exampleSimData) = 2 \<and>
   timeE (last (ecgData
     (ecgStep (examplePatient ''PID00123'') exampleEnv (ecgRun twoTicks exampleSimData)))) = 2 \<and>
   timeE (last (ecgData (ecgRun twoTicks exampleSimData))) = 1 \<and>
   timeE (last (spo2WaveData
     (ecgStep (examplePatient ''PID00123'') exampleEnv (ecgRun twoTicks exampleSimData)))) =
     timeE (last (spo2WaveData (ecgRun twoTicks exampleSimData))) + 1 \<and>
   timeE (last (respWaveData
     (ecgStep (examplePatient ''PID00123'') exampleEnv (ecgRun twoTicks exampleSimData)))) =
     timeE (last (respWaveData (ecgRun twoTicks exampleSimData))) + 1"
  using waveform_buffers_over_ticks [OF exampleSimData_nonempty, of twoTicks
      "examplePatient ''PID00123''" exampleEnv]
  by (simp add: exampleSimData_nonempty exampleSimData_buffers exampleSimData_fields twoTicks_def)

lemma last_initial:
  "timeE (last getInitialEcgData) = 399"
  "timeE (last getInitialSpo2Data) = 399"
  "timeE (last getInitialRespData) = 399"
  by (simp_all add: getInitialEcgData_def getInitialSpo2Data_def getInitialRespData_def
      MAX_ECG_DATA_POINTS_400 last_map)

lemma exampleSimData_last:
  "timeE (last (ecgData exampleSimData)) = 399"
  "timeE (last (spo2WaveData exampleSimData)) = 399"
  by (simp_all add: exampleSimData_def createInitialPatientSimData_def Let_def last_initial)

lemma toggleSimData_keeps:
  "ecgCurrentTime (toggleSimData newId date sd) = ecgCurrentTime sd"
  "isLeadOff (toggleSimData newId date sd) = (\<not> isLeadOff sd)"
  by (simp_all add: toggleSimData_def Let_def)

text \<open>
  C5 as stated fails at the first tick of a fresh entry: the initial buffers hold the
  indices 0 to 399 while the counter starts at 0, so the newest ECG index goes from 399
  to 0. It also fails for the SpO2 buffer across a lead-off toggle: the tick before the
  toggle and the tick after it both append the index 1.
\<close>

theorem newest_index_counterexample:
  "timeE (last (ecgData exampleSimData)) = 399 \<and>
   timeE (last (ecgData (ecgStep (examplePatient ''PID00123'') exampleEnv exampleSimData))) = 0 \<and>
   timeE (last (spo2WaveData (ecgStep (examplePatient ''PID00123'') exampleEnv exampleSimData))) = 1 \<and>
   timeE (last (spo2WaveData
     (ecgStep (examplePatient ''PID00123'') exampleEnv
        (toggleSimData ''uuid-0'' 1000
           (ecgStep (examplePatient ''PID00123'') exampleEnv exampleSimData))))) = 1"
  by (simp add: ecgStep_newest ecgStep_counter toggleSimData_keeps exampleSimData_last
      exampleSimData_buffers exampleSimData_fields)

subsection \<open>The inter-beat countdown\<close>

lemma pointsPerSecond_40: "pointsPerSecond = 40"
  by (simp add: pointsPerSecond_def SIMULATION_ECG_INTERVAL_MS_def)

lemma leadOffStep_countdown:
  "nextRRIntervalPoints (leadOffStep sd) = nextRRIntervalPoints sd"
  "currentTargetHeartRate (leadOffStep sd) = currentTargetHeartRate sd"
  by (simp_all add: leadOffStep_def Let_def)

lemma rhythmStep_target:
  "currentTargetHeartRate (rhythmStep patient env sd) =
     (if le_zero (nextRRIntervalPoints sd)
      then (case pacedRate patient sd of
              Some r \<Rightarrow> r
            | None \<Rightarrow> simulatedHR (RHYTHM_PARAMS (activeRhythm patient)) (mathRandom env 0))
      else currentTargetHeartRate sd)"
  by (simp add: rhythmStep_def Let_def)

lemma rhythmStep_countdown:
  "nextRRIntervalPoints (rhythmStep patient env sd) =
     (if le_zero (nextRRIntervalPoints sd)
      then (if currentTargetHeartRate (rhythmStep patient env sd) > 0
            then Fin ((60 / currentTargetHeartRate (rhythmStep patient env sd)) * pointsPerSecond - 1)
            else PosInf)
      else decrement (nextRRIntervalPoints sd))"
  by (simp add: rhythmStep_def Let_def)

lemma ecgStep_never:
  "nextRRIntervalPoints sd = PosInf \<Longrightarrow> nextRRIntervalPoints (ecgStep patient env sd) = PosInf"
  using rhythmStep_countdown [of patient env sd]
  by (simp add: ecgStep_def leadOffStep_countdown)

lemma ecgRun_never:
  "nextRRIntervalPoints sd = PosInf \<Longrightarrow> nextRRIntervalPoints (ecgRun ticks sd) = PosInf"
  by (induction ticks arbitrary: sd) (auto simp: ecgStep_never)

text \<open>
  C3 (as the code has it). A tick with lead-off on leaves the countdown as it is. With
  lead-off off: when the countdown has run out (\<open>\<le> 0\<close>), the target rate becomes the
  pacer rate of a paced beat or else a fresh rate of the rhythm, and the countdown is
  set to \<open>(60 / targetRate) * 40\<close> samples, not rounded, for a target rate above 0, and
  to \<^verbatim>\<open>Infinity\<close> otherwise, and is then decremented by one in the same tick; when the
  countdown has not run out it is decremented by one. A countdown of \<^verbatim>\<open>Infinity\<close> stays
  \<^verbatim>\<open>Infinity\<close> over every run of ticks, so no further beat falls due.
\<close>

theorem countdown_rule:
  "(isLeadOff sd \<longrightarrow>
      nextRRIntervalPoints (ecgStep patient env sd) = nextRRIntervalPoints sd) \<and>
   (\<not> isLeadOff sd \<and> le_zero (nextRRIntervalPoints sd) \<longrightarrow>
      currentTargetHeartRate (ecgStep patient env sd) =
        (case pacedRate patient sd of
           Some r \<Rightarrow> r
         | None \<Rightarrow> simulatedHR (RHYTHM_PARAMS (activeRhythm patient)) (mathRandom env 0)) \<and>
      nextRRIntervalPoints (ecgStep patient env sd) =
        (if currentTargetHeartRate (ecgStep patient env sd) > 0
         then Fin ((60 / currentTargetHeartRate (ecgStep patient env sd)) * 40 - 1)
         else PosInf)) \<and>
   (\<not> isLeadOff sd \<and> \<not> le_zero (nextRRIntervalPoints sd) \<longrightarrow>
      nextRRIntervalPoints (ecgStep patient env sd) = decrement (nextRRIntervalPoints sd)) \<and>
   (nextRRIntervalPoints sd = PosInf \<longrightarrow>
      nextRRIntervalPoints (ecgRun ticks sd) = PosInf)"
  using rhythmStep_countdown [of patient env sd] ecgRun_never [of sd ticks]
  by (auto simp: ecgStep_def leadOffStep_countdown rhythmStep_target pointsPerSecond_40)

lemma random_tenth_NSR: "generateRandomInRange (1/10) 60 100 0 = 64"
  by (simp add: generateRandomInRange_def toFixed_def)

lemma examplePatient_fields:
  "idP (examplePatient i) = i"
  "activeRhythm (examplePatient i) = NSR"
  "pacerSettings (examplePatient i) = Some \<lparr>mode = Some Off, rate = Some 70\<rparr>"
  "personalizedThresholds (examplePatient i) = None"
  by (simp_all add: examplePatient_def)

lemma exampleEnv_fields:
  "dateNow exampleEnv = 1000" "mathRandom exampleEnv k = 1/10" "newDate exampleEnv k = 1000"
  by (simp_all add: exampleEnv_def)

lemma exampleSimData_timing:
  "nextRRIntervalPoints exampleSimData = Fin 0"
  "ecgBufferIndex exampleSimData = 0"
  "heartRate (metrics exampleSimData) = 64"
  "currentTargetHeartRate exampleSimData = 64"
  by (simp_all add: exampleSimData_def createInitialPatientSimData_def Let_def
      examplePatient_fields getDefaultMetrics_def random_tenth_NSR)

lemma pacedRate_example: "pacedRate (examplePatient ''PID00123'') sd = None"
  by (simp add: pacedRate_def effectivePacerSettings_def examplePatient_fields Let_def)

lemma pacedRate_asystole: "pacedRate asystolePatient sd = None"
  by (simp add: pacedRate_def effectivePacerSettings_def examplePatient_fields asystolePatient_def
      Let_def)

lemma asystolePatient_rhythm: "activeRhythm asystolePatient = ASYSTOLE"
  by (simp add: asystolePatient_def)

lemma toggleSimData_timing:
  "nextRRIntervalPoints (toggleSimData newId date sd) = nextRRIntervalPoints sd"
  by (simp add: toggleSimData_def Let_def)

theorem countdown_rule_witness:
  "\<not> isLeadOff exampleSimData \<and> le_zero (nextRRIntervalPoints exampleSimData) \<and>
   currentTargetHeartRate (ecgStep (examplePatient ''PID00123'') exampleEnv exampleSimData) = 64 \<and>
   nextRRIntervalPoints (ecgStep (examplePatient ''PID00123'') exampleEnv exampleSimData) =
     Fin (73/2) \<and>
   nextRRIntervalPoints
     (ecgStep (examplePatient ''PID00123'') exampleEnv
        (ecgStep (examplePatient ''PID00123'') exampleEnv exampleSimData)) = Fin (71/2) \<and>
   isLeadOff (toggleSimData ''uuid-0'' 1000 exampleSimData) \<and>
   nextRRIntervalPoints
     (ecgStep (examplePatient ''PID00123'') exampleEnv (toggleSimData ''uuid-0'' 1000 exampleSimData)) =
     Fin 0 \<and>
   nextRRIntervalPoints (ecgStep asystolePatient exampleEnv exampleSimData) = PosInf \<and>
   nextRRIntervalPoints
     (ecgRun twoTicks (ecgStep asystolePatient exampleEnv exampleSimData)) = PosInf"
proof -
  let ?p = "examplePatient ''PID00123''"
  have 1: "currentTargetHeartRate (ecgStep ?p exampleEnv exampleSimData) = 64 \<and>
      nextRRIntervalPoints (ecgStep ?p exampleEnv exampleSimData) = Fin (73/2)"
    using countdown_rule [of exampleSimData ?p exampleEnv]
    by (simp add: exampleSimData_fields exampleSimData_timing pacedRate_example
        examplePatient_fields exampleEnv_fields random_tenth_NSR)
  have 2: "nextRRIntervalPoints (ecgStep ?p exampleEnv (ecgStep ?p exampleEnv exampleSimData)) =
      Fin (71/2)"
    using 1 countdown_rule [of "ecgStep ?p exampleEnv exampleSimData" ?p exampleEnv]
    by (simp add: ecgStep_counter exampleSimData_fields)
  have 3: "nextRRIntervalPoints (ecgStep ?p exampleEnv (toggleSimData ''uuid-0'' 1000 exampleSimData)) =
      Fin 0"
    using countdown_rule [of "toggleSimData ''uuid-0'' 1000 exampleSimData" ?p exampleEnv]
    by (simp add: toggled_fields toggleSimData_timing exampleSimData_timing)
  have 4: "nextRRIntervalPoints (ecgStep asystolePatient exampleEnv exampleSimData) = PosInf"
    using countdown_rule [of exampleSimData asystolePatient exampleEnv]
    by (simp add: exampleSimData_fields exampleSimData_timing pacedRate_asystole
        asystolePatient_rhythm)
  have 5: "nextRRIntervalPoints
     (ecgRun twoTicks (ecgStep asystolePatient exampleEnv exampleSimData)) = PosInf"
    using 4 countdown_rule [of "ecgStep asystolePatient exampleEnv exampleSimData" _ _ twoTicks]
    by simp
  show ?thesis
    using 1 2 3 4 5
    by (simp add: exampleSimData_fields exampleSimData_timing toggled_fields)
qed

text \<open>
  C3 as stated fails: for a target rate of 64 the countdown is set to 37.5 and stands at
  36.5 after the tick, where the rounded value 38 would leave 37; and a tick with
  lead-off on does not decrement the countdown.
\<close>

theorem rounded_countdown_counterexample:
  "currentTargetHeartRate (ecgStep (examplePatient ''PID00123'') exampleEnv exampleSimData) = 64 \<and>
   nextRRIntervalPoints (ecgStep (examplePatient ''PID00123'') exampleEnv exampleSimData) =
     Fin (73/2) \<and>
   Fin (73/2) \<noteq> Fin (real_of_int (round ((60 / 64) * pointsPerSecond)) - 1) \<and>
   nextRRIntervalPoints (toggleSimData ''uuid-0'' 1000 exampleSimData) = Fin 0 \<and>
   nextRRIntervalPoints
     (ecgStep (examplePatient ''PID00123'') exampleEnv (toggleSimData ''uuid-0'' 1000 exampleSimData)) =
     Fin 0"
proof -
  have r: "round (75 / 2 :: real) = 38"
    by (simp add: round_def)
  show ?thesis
    using rhythmStep_countdown [of "examplePatient ''PID00123''" exampleEnv exampleSimData]
    by (simp add: r ecgStep_def rhythmStep_target leadOffStep_countdown exampleSimData_fields
        exampleSimData_timing toggled_fields toggleSimData_timing pacedRate_example
        examplePatient_fields exampleEnv_fields random_tenth_NSR pointsPerSecond_40)
qed

subsection \<open>Paced beats\<close>

lemma pacedRate_demand:
  "le_zero (nextRRIntervalPoints sd) \<Longrightarrow>
   pacerSettings patient = Some \<lparr>mode = Some Demand, rate = Some R\<rparr> \<Longrightarrow>
   heartRate (metrics sd) < R \<Longrightarrow> pacedRate patient sd = Some R"
  by (simp add: pacedRate_def effectivePacerSettings_def Let_def)

lemma paced_pattern_length:
  "length (ECG_PACER_SPIKE_PATTERN @ ECG_PACED_QRS_PATTERN) = 12"
  "(ECG_PACER_SPIKE_PATTERN @ ECG_PACED_QRS_PATTERN) ! 0 = 0"
  by (simp_all add: ECG_PACER_SPIKE_PATTERN_def ECG_PACED_QRS_PATTERN_def)

lemma rhythmStep_beat_start:
  "le_zero (nextRRIntervalPoints sd) \<Longrightarrow> ecgBufferIndex sd = 0 \<Longrightarrow>
   pacedRate patient sd = Some R \<Longrightarrow>
   ecgPatternBuffer (rhythmStep patient env sd) = ECG_PACER_SPIKE_PATTERN @ ECG_PACED_QRS_PATTERN \<and>
   ecgBufferIndex (rhythmStep patient env sd) = 1 \<and>
   valueE (last (ecgData (rhythmStep patient env sd))) =
     (ECG_PACER_SPIKE_PATTERN @ ECG_PACED_QRS_PATTERN) ! 0 \<and>
   lastBeatTimestamp (rhythmStep patient env sd) = Some (dateNow env)"
  using paced_pattern_length
  by (simp add: rhythmStep_def Let_def currentPattern_def last_slide)

lemma rhythmStep_in_progress:
  "ecgBufferIndex sd > 0 \<Longrightarrow>
   ecgPatternBuffer (rhythmStep patient env sd) =
     (if Suc (ecgBufferIndex sd) \<ge> length (ecgPatternBuffer sd) then [] else ecgPatternBuffer sd) \<and>
   valueE (last (ecgData (rhythmStep patient env sd))) =
     (if ecgBufferIndex sd < length (ecgPatternBuffer sd)
      then ecgPatternBuffer sd ! ecgBufferIndex sd else 0)"
  by (auto simp: rhythmStep_def Let_def currentPattern_def last_slide)

text \<open>
  C2 (as the code has it). In a tick with lead-off off in which the countdown has run
  out, the pacer is in demand mode with rate \<open>R\<close> and the displayed heart rate
  (\<^verbatim>\<open>metrics.heartRate\<close>, which the code compares with the pacer rate) is below \<open>R\<close>: the
  target rate becomes \<open>R\<close> and the countdown is recomputed from \<open>R\<close>. If no pattern is
  being walked (the cursor is 0), the beat that starts is the paced one: the pattern
  buffer is the pacer spike followed by the paced QRS and its first sample is emitted.
\<close>

theorem paced_beat_rule:
  assumes "\<not> isLeadOff sd"
    and "le_zero (nextRRIntervalPoints sd)"
    and "pacerSettings patient = Some \<lparr>mode = Some Demand, rate = Some R\<rparr>"
    and "heartRate (metrics sd) < R"
  shows "currentTargetHeartRate (ecgStep patient env sd) = R \<and>
     nextRRIntervalPoints (ecgStep patient env sd) =
       (if R > 0 then Fin ((60 / R) * 40 - 1) else PosInf) \<and>
     (ecgBufferIndex sd = 0 \<longrightarrow>
        ecgPatternBuffer (ecgStep patient env sd) =
          ECG_PACER_SPIKE_PATTERN @ ECG_PACED_QRS_PATTERN \<and>
        ecgBufferIndex (ecgStep patient env sd) = 1 \<and>
        valueE (last (ecgData (ecgStep patient env sd))) =
          (ECG_PACER_SPIKE_PATTERN @ ECG_PACED_QRS_PATTERN) ! 0 \<and>
        lastBeatTimestamp (ecgStep patient env sd) = Some (dateNow env))"
proof -
  have p: "pacedRate patient sd = Some R"
    using assms by (simp add: pacedRate_demand)
  have t: "currentTargetHeartRate (rhythmStep patient env sd) = R"
    using assms(2) p by (simp add: rhythmStep_target)
  have c: "nextRRIntervalPoints (rhythmStep patient env sd) =
       (if R > 0 then Fin ((60 / R) * 40 - 1) else PosInf)"
    using rhythmStep_countdown [of patient env sd] assms(2) t by (simp add: pointsPerSecond_40)
  show ?thesis
    using assms(1) assms(2) p t c rhythmStep_beat_start [of sd patient R env]
    by (simp add: ecgStep_def)
qed

lemma ecgStep_walk:
  assumes "\<not> isLeadOff sd" and "nextRRIntervalPoints sd = Fin x" and "0 < x"
    and "0 < ecgBufferIndex sd" and "Suc (ecgBufferIndex sd) < length (ecgPatternBuffer sd)"
  shows "\<not> isLeadOff (ecgStep patient env sd) \<and>
     nextRRIntervalPoints (ecgStep patient env sd) = Fin (x - 1) \<and>
     ecgBufferIndex (ecgStep patient env sd) = Suc (ecgBufferIndex sd) \<and>
     ecgPatternBuffer (ecgStep patient env sd) = ecgPatternBuffer sd \<and>
     metrics (ecgStep patient env sd) = metrics sd"
  using assms by (simp add: ecgStep_def rhythmStep_def Let_def currentPattern_def)

lemma ecgRun_walk:
  "\<not> isLeadOff sd \<Longrightarrow> nextRRIntervalPoints sd = Fin x \<Longrightarrow> real k < x + 1 \<Longrightarrow>
   0 < ecgBufferIndex sd \<Longrightarrow> ecgBufferIndex sd + k < length (ecgPatternBuffer sd) \<Longrightarrow>
   \<not> isLeadOff (ecgRun (replicate k (patient, env)) sd) \<and>
   nextRRIntervalPoints (ecgRun (replicate k (patient, env)) sd) = Fin (x - real k) \<and>
   ecgBufferIndex (ecgRun (replicate k (patient, env)) sd) = ecgBufferIndex sd + k \<and>
   ecgPatternBuffer (ecgRun (replicate k (patient, env)) sd) = ecgPatternBuffer sd \<and>
   metrics (ecgRun (replicate k (patient, env)) sd) = metrics sd"
proof (induction k arbitrary: sd x)
  case 0
  then show ?case by simp
next
  case (Suc k)
  have x: "0 < x" using Suc.prems(3) by simp
  have i: "Suc (ecgBufferIndex sd) < length (ecgPatternBuffer sd)" using Suc.prems(5) by simp
  note step = ecgStep_walk [OF Suc.prems(1) Suc.prems(2) x Suc.prems(4) i, of patient env]
  have "real k < (x - 1) + 1" using Suc.prems(3) by simp
  moreover have "ecgBufferIndex (ecgStep patient env sd) + k < length (ecgPatternBuffer (ecgStep patient env sd))"
    using step Suc.prems(5) by simp
  ultimately show ?case
    using Suc.IH [of "ecgStep patient env sd" "x - 1"] step by (simp add: algebra_simps)
qed

lemma vtPatient_fields:
  "activeRhythm vtPatient = VT"
  "pacerSettings vtPatient = Some \<lparr>mode = Some Off, rate = Some 70\<rparr>"
  "activeRhythm vtPaced = VT"
  "pacerSettings vtPaced = Some \<lparr>mode = Some Demand, rate = Some 200\<rparr>"
  by (simp_all add: vtPatient_def vtPaced_def examplePatient_fields mergePacerSettings_def
      nullish_def)

lemma vtEntry_fields:
  "isLeadOff vtEntry = False"
  "nextRRIntervalPoints vtEntry = Fin 0"
  "ecgBufferIndex vtEntry = 0"
  "heartRate (metrics vtEntry) = 180"
  by (simp_all add: vtEntry_def createInitialPatientSimData_def Let_def vtPatient_fields
      getDefaultMetrics_def)

lemma vt_first_tick:
  "\<not> isLeadOff (ecgStep vtPatient exampleEnv vtEntry) \<and>
   nextRRIntervalPoints (ecgStep vtPatient exampleEnv vtEntry) = Fin (37/3) \<and>
   ecgBufferIndex (ecgStep vtPatient exampleEnv vtEntry) = 1 \<and>
   ecgPatternBuffer (ecgStep vtPatient exampleEnv vtEntry) = ECG_VT_PATTERN \<and>
   heartRate (metrics (ecgStep vtPatient exampleEnv vtEntry)) = 180"
  by (simp add: ecgStep_def rhythmStep_def Let_def currentPattern_def pacedRate_def
      effectivePacerSettings_def vtPatient_fields vtEntry_fields pointsPerSecond_40
      ECG_VT_PATTERN_def)

lemma midBeat_fields:
  "isLeadOff midBeat = False"
  "nextRRIntervalPoints midBeat = Fin (- (2/3))"
  "heartRate (metrics midBeat) = 180"
  "ecgBufferIndex midBeat = 14"
  "ecgPatternBuffer midBeat = ECG_VT_PATTERN"
proof -
  have r: "replicate 14 (vtPatient, exampleEnv) =
      (vtPatient, exampleEnv) # replicate 13 (vtPatient, exampleEnv)"
    by (simp add: numeral_eq_Suc)
  have m: "midBeat = ecgRun (replicate 13 (vtPatient, exampleEnv)) (ecgStep vtPatient exampleEnv vtEntry)"
    by (simp add: midBeat_def r)
  have l: "length ECG_VT_PATTERN = 16"
    by (simp add: ECG_VT_PATTERN_def)
  note w = ecgRun_walk [of "ecgStep vtPatient exampleEnv vtEntry" "37/3" 13 vtPatient exampleEnv]
  show "isLeadOff midBeat = False" "nextRRIntervalPoints midBeat = Fin (- (2/3))"
    "heartRate (metrics midBeat) = 180" "ecgBufferIndex midBeat = 14"
    "ecgPatternBuffer midBeat = ECG_VT_PATTERN"
    using w vt_first_tick by (simp_all add: m l)
qed

theorem paced_beat_rule_witness:
  "\<not> isLeadOff vtEntry \<and> le_zero (nextRRIntervalPoints vtEntry) \<and>
   pacerSettings vtPaced = Some \<lparr>mode = Some Demand, rate = Some 200\<rparr> \<and>
   heartRate (metrics vtEntry) < 200 \<and> ecgBufferIndex vtEntry = 0 \<and>
   currentTargetHeartRate (ecgStep vtPaced exampleEnv vtEntry) = 200 \<and>
   nextRRIntervalPoints (ecgStep vtPaced exampleEnv vtEntry) = Fin 11 \<and>
   ecgPatternBuffer (ecgStep vtPaced exampleEnv vtEntry) =
     [0, 28/10, 0, 0, 2/10, 6/10, 1, 4/10, - (3/10), - (5/10), - (2/10), 0] \<and>
   ecgBufferIndex (ecgStep vtPaced exampleEnv vtEntry) = 1 \<and>
   valueE (last (ecgData (ecgStep vtPaced exampleEnv vtEntry))) = 0 \<and>
   currentTargetHeartRate (ecgStep vtPaced exampleEnv midBeat) = 200 \<and>
   nextRRIntervalPoints (ecgStep vtPaced exampleEnv midBeat) = Fin 11"
  using paced_beat_rule [of vtEntry vtPaced 200 exampleEnv]
    paced_beat_rule [of midBeat vtPaced 200 exampleEnv]
  by (simp add: vtEntry_fields midBeat_fields vtPatient_fields
      ECG_PACER_SPIKE_PATTERN_def ECG_PACED_QRS_PATTERN_def ECG_VT_PATTERN_def)

lemma blockPaced_fields:
  "activeRhythm blockPaced = THIRD_DEGREE_AV_BLOCK"
  "pacerSettings blockPaced = Some \<lparr>mode = Some Demand, rate = Some 60\<rparr>"
  by (simp_all add: blockPaced_def blockPatient_def examplePatient_fields mergePacerSettings_def
      nullish_def)

lemma blockEntry_timing:
  "isLeadOff blockEntry = False"
  "nextRRIntervalPoints blockEntry = Fin 0"
  "ecgBufferIndex blockEntry = 0"
  "heartRate (metrics blockEntry) = 64"
  "currentTargetHeartRate blockEntry = 40"
  by (simp_all add: blockEntry_def exampleSimData_fields exampleSimData_timing)

lemma blockPaced_reached:
  "patients (updatePatientPacingSettings ''PID00123'' \<lparr>mode = Some Demand, rate = Some 60\<rparr>
      (setPatientRhythm ''PID00123'' THIRD_DEGREE_AV_BLOCK (1/2) oneEntry)) = [blockPaced]"
  "simulationDataMap (updatePatientPacingSettings ''PID00123'' \<lparr>mode = Some Demand, rate = Some 60\<rparr>
      (setPatientRhythm ''PID00123'' THIRD_DEGREE_AV_BLOCK (1/2) oneEntry)) =
     [(''PID00123'', blockEntry)]"
  by (simp_all add: updatePatientPacingSettings_def setPatientRhythm_def oneEntry_def
      withSimData_def blockPaced_def blockPatient_def blockEntry_def examplePatient_fields)

lemma block_tick:
  "currentTargetHeartRate (ecgStep blockPaced exampleEnv blockEntry) = 40 \<and>
   nextRRIntervalPoints (ecgStep blockPaced exampleEnv blockEntry) = Fin 59 \<and>
   ecgPatternBuffer (ecgStep blockPaced exampleEnv blockEntry) = ECG_THIRD_DEGREE_AV_BLOCK_PATTERN"
  by (simp add: ecgStep_def rhythmStep_def Let_def currentPattern_def pacedRate_def
      effectivePacerSettings_def blockPaced_fields blockEntry_timing pointsPerSecond_40
      ECG_THIRD_DEGREE_AV_BLOCK_PATTERN_def)

text \<open>
  C2 as stated fails in two ways. First, when the beat falls due while the previous
  pattern is still being walked: in the entry reached after 14 ticks of ventricular
  tachycardia, with the pacer then set to demand at 200 and a displayed heart rate of
  180, the tick goes on with the tachycardia pattern (sample 14) and no paced pattern is
  emitted. Second, the rate compared with the pacer rate is the displayed heart rate
  (\<^verbatim>\<open>metrics.heartRate\<close>, lines 345 and 351), not the intrinsic rate of the rhythm: after
  the rhythm of the example patient is set to third-degree AV block (intrinsic rate 40)
  and the pacer to demand at 60, the displayed rate is still 64, and the tick in which
  the beat is due, with no pattern being walked and lead-off off, starts an unpaced
  beat: the target rate is 40, the countdown is 59 and not 39, and the pattern is that
  of the block.
\<close>

theorem paced_beat_counterexample:
  "\<not> isLeadOff midBeat \<and> le_zero (nextRRIntervalPoints midBeat) \<and>
   pacerSettings vtPaced = Some \<lparr>mode = Some Demand, rate = Some 200\<rparr> \<and>
   heartRate (metrics midBeat) < 200 \<and>
   ecgPatternBuffer (ecgStep vtPaced exampleEnv midBeat) = ECG_VT_PATTERN \<and>
   ECG_VT_PATTERN \<noteq> ECG_PACER_SPIKE_PATTERN @ ECG_PACED_QRS_PATTERN \<and>
   valueE (last (ecgData (ecgStep vtPaced exampleEnv midBeat))) = - (6/10) \<and>
   patients (updatePatientPacingSettings ''PID00123'' \<lparr>mode = Some Demand, rate = Some 60\<rparr>
      (setPatientRhythm ''PID00123'' THIRD_DEGREE_AV_BLOCK (1/2) oneEntry)) = [blockPaced] \<and>
   simulationDataMap (updatePatientPacingSettings ''PID00123'' \<lparr>mode = Some Demand, rate = Some 60\<rparr>
      (setPatientRhythm ''PID00123'' THIRD_DEGREE_AV_BLOCK (1/2) oneEntry)) =
     [(''PID00123'', blockEntry)] \<and>
   \<not> isLeadOff blockEntry \<and> le_zero (nextRRIntervalPoints blockEntry) \<and>
   ecgBufferIndex blockEntry = 0 \<and>
   pacerSettings blockPaced = Some \<lparr>mode = Some Demand, rate = Some 60\<rparr> \<and>
   simulatedHR (RHYTHM_PARAMS (activeRhythm blockPaced)) (mathRandom exampleEnv 0) = 40 \<and>
   currentTargetHeartRate blockEntry = 40 \<and> (40 :: real) < 60 \<and>
   heartRate (metrics blockEntry) = 64 \<and>
   currentTargetHeartRate (ecgStep blockPaced exampleEnv blockEntry) = 40 \<and>
   nextRRIntervalPoints (ecgStep blockPaced exampleEnv blockEntry) = Fin 59 \<and>
   Fin 59 \<noteq> Fin ((60 / 60) * 40 - 1) \<and>
   ecgPatternBuffer (ecgStep blockPaced exampleEnv blockEntry) =
     ECG_THIRD_DEGREE_AV_BLOCK_PATTERN \<and>
   ECG_THIRD_DEGREE_AV_BLOCK_PATTERN \<noteq> ECG_PACER_SPIKE_PATTERN @ ECG_PACED_QRS_PATTERN"
proof -
  have vt: "\<not> isLeadOff midBeat \<and> le_zero (nextRRIntervalPoints midBeat) \<and>
   pacerSettings vtPaced = Some \<lparr>mode = Some Demand, rate = Some 200\<rparr> \<and>
   heartRate (metrics midBeat) < 200 \<and>
   ecgPatternBuffer (ecgStep vtPaced exampleEnv midBeat) = ECG_VT_PATTERN \<and>
   ECG_VT_PATTERN \<noteq> ECG_PACER_SPIKE_PATTERN @ ECG_PACED_QRS_PATTERN \<and>
   valueE (last (ecgData (ecgStep vtPaced exampleEnv midBeat))) = - (6/10)"
    using rhythmStep_in_progress [of midBeat vtPaced exampleEnv]
    by (simp add: ecgStep_def midBeat_fields vtPatient_fields
      ECG_PACER_SPIKE_PATTERN_def ECG_PACED_QRS_PATTERN_def ECG_VT_PATTERN_def)
  have d: "ECG_THIRD_DEGREE_AV_BLOCK_PATTERN \<noteq> ECG_PACER_SPIKE_PATTERN @ ECG_PACED_QRS_PATTERN"
    by (simp add: ECG_THIRD_DEGREE_AV_BLOCK_PATTERN_def ECG_PACER_SPIKE_PATTERN_def)
  have r: "simulatedHR (RHYTHM_PARAMS (activeRhythm blockPaced)) (mathRandom exampleEnv 0) = 40"
    by (simp add: blockPaced_fields)
  show ?thesis
    using vt d r block_tick
    by (simp add: blockPaced_reached blockPaced_fields blockEntry_timing)
qed

subsection \<open>De-duplication of alerts\<close>

lemma list_ex_key:
  "list_ex (\<lambda>a. message a = msg \<and> severity a = sev) as \<longleftrightarrow> (msg, sev) \<in> set (map alertKey as)"
  by (induction as) (auto simp: alertKey_def)

lemma countAlerts_distinct:
  "distinct (map alertKey as) \<Longrightarrow>
   countAlerts msg sev as = (if (msg, sev) \<in> set (map alertKey as) then 1 else 0)"
  by (induction as) (auto simp: countAlerts_def alertKey_def)

lemma checkAlert_distinct:
  "distinct (map alertKey as) \<Longrightarrow>
   distinct (map alertKey (checkAlert toStr metricName v gt pt sev type newId date as))"
  by (simp add: checkAlert_def Let_def list_ex_key) (simp add: alertKey_def)

lemma checkAlert_keys:
  "alertKey ` set (checkAlert toStr metricName v gt pt sev type newId date as) =
     alertKey ` set as \<union>
     (if isTriggered v gt pt sev type then {(alertMessage toStr metricName type v, sev)} else {})"
  by (auto simp: checkAlert_def Let_def list_ex_key alertKey_def)

lemma checkAlert_extends:
  "\<exists>new. checkAlert toStr metricName v gt pt sev type newId date as = as @ new"
  by (simp add: checkAlert_def Let_def)

lemma checkAlert_guard:
  "list_ex (\<lambda>a. message a = alertMessage toStr metricName type v \<and> severity a = sev) as \<Longrightarrow>
   checkAlert toStr metricName v gt pt sev type newId date as = as"
  by (simp add: checkAlert_def Let_def)

lemma evaluateAlerts_distinct:
  "distinct (map alertKey as) \<Longrightarrow> distinct (map alertKey (evaluateAlerts toStr patient m env as))"
  by (simp add: evaluateAlerts_def Let_def checkAlert_distinct)

lemma evaluateAlerts_keeps:
  "set (map alertKey as) \<subseteq> set (map alertKey (evaluateAlerts toStr patient m env as))"
  by (auto simp: evaluateAlerts_def Let_def checkAlert_keys)

lemma evaluateAlerts_extends:
  "\<exists>new. evaluateAlerts toStr patient m env as = as @ new"
proof -
  have step: "\<exists>new. checkAlert toStr metricName v gt pt sev type newId date bs = as @ new"
    if "\<exists>new. bs = as @ new" for metricName v gt pt sev type newId date bs
  proof -
    from that obtain n1 where "bs = as @ n1" by blast
    moreover obtain n2 where
      "checkAlert toStr metricName v gt pt sev type newId date bs = bs @ n2"
      using checkAlert_extends by blast
    ultimately have "checkAlert toStr metricName v gt pt sev type newId date bs = as @ (n1 @ n2)"
      by simp
    then show ?thesis by blast
  qed
  have "\<exists>new. as = as @ new" by simp
  then show ?thesis
    unfolding evaluateAlerts_def Let_def by (intro step)
qed

lemma evaluateAlerts_heart_rate:
  assumes "isTriggered (heartRate m) ALERT_THRESHOLDS_HEART_RATE
             (Option.bind (personalizedThresholds patient) heartRateT) sev type"
  shows "(alertMessage toStr ''Heart Rate'' type (heartRate m), sev) \<in>
           set (map alertKey (evaluateAlerts toStr patient m env as))"
  using assms
  by (cases sev; cases type) (simp_all add: evaluateAlerts_def Let_def checkAlert_keys)

lemma evaluateAlerts_spo2:
  assumes "isTriggered (spo2 m) ALERT_THRESHOLDS_SPO2
             (Option.bind (personalizedThresholds patient) spo2T) sev low"
  shows "(alertMessage toStr SpO2_name low (spo2 m), sev) \<in>
           set (map alertKey (evaluateAlerts toStr patient m env as))"
  using assms
  by (cases sev) (simp_all add: evaluateAlerts_def Let_def checkAlert_keys)

lemma vitalsStep_alerts:
  "alerts (vitalsStep toStr patient env sd) =
     evaluateAlerts toStr patient (metrics (vitalsStep toStr patient env sd)) env (alerts sd)"
  by (simp add: vitalsStep_def Let_def)

lemma vitalsRun_distinct:
  "distinct (map alertKey (alerts sd)) \<Longrightarrow> distinct (map alertKey (alerts (vitalsRun toStr ticks sd)))"
  by (induction ticks arbitrary: sd) (auto simp: vitalsStep_alerts evaluateAlerts_distinct)

lemma vitalsRun_keeps:
  "set (map alertKey (alerts sd)) \<subseteq> set (map alertKey (alerts (vitalsRun toStr ticks sd)))"
proof (induction ticks arbitrary: sd)
  case Nil
  then show ?case by simp
next
  case (Cons t ticks)
  obtain patient env where t: "t = (patient, env)" by (cases t)
  have "set (map alertKey (alerts sd)) \<subseteq>
      set (map alertKey (alerts (vitalsStep toStr patient env sd)))"
    by (simp only: vitalsStep_alerts evaluateAlerts_keeps)
  also have "\<dots> \<subseteq> set (map alertKey (alerts (vitalsRun toStr ticks (vitalsStep toStr patient env sd))))"
    by (rule Cons.IH)
  finally show ?case by (simp add: t)
qed

lemma vitalsRun_extends:
  "\<exists>new. alerts (vitalsRun toStr ticks sd) = alerts sd @ new"
proof (induction ticks arbitrary: sd)
  case Nil
  then show ?case by simp
next
  case (Cons t ticks)
  obtain patient env where t: "t = (patient, env)" by (cases t)
  obtain n1 where 1: "alerts (vitalsStep toStr patient env sd) = alerts sd @ n1"
    using evaluateAlerts_extends [of toStr patient _ env "alerts sd"]
    by (auto simp: vitalsStep_alerts)
  obtain n2 where "alerts (vitalsRun toStr ticks (vitalsStep toStr patient env sd)) =
      alerts (vitalsStep toStr patient env sd) @ n2"
    using Cons.IH by blast
  then have "alerts (vitalsRun toStr (t # ticks) sd) = alerts sd @ (n1 @ n2)"
    by (simp add: t 1)
  then show ?case by blast
qed

lemma vitalsRun_prefix:
  "take (length (alerts sd)) (alerts (vitalsRun toStr ticks sd)) = alerts sd"
  using vitalsRun_extends [of toStr ticks sd] by auto

text \<open>The decimal digits of a natural number determine it, and so does the message.\<close>

lemma natToString_nonempty: "natToString n \<noteq> []"
  by (subst natToString.simps) simp

lemma digitChar_inj: "a < 10 \<Longrightarrow> b < 10 \<Longrightarrow> digitChar a = digitChar b \<Longrightarrow> a = b"
proof -
  have d: "distinct ''0123456789''" by simp
  show "a < 10 \<Longrightarrow> b < 10 \<Longrightarrow> digitChar a = digitChar b \<Longrightarrow> a = b"
    using nth_eq_iff_index_eq [OF d, of a b] by (simp add: digitChar_def)
qed

lemma digitChar_digit: "a < 10 \<Longrightarrow> digitChar a \<noteq> CHR ''-''"
proof -
  assume "a < 10"
  then have "digitChar a \<in> set ''0123456789''"
    unfolding digitChar_def by (intro nth_mem) simp
  then show ?thesis by auto
qed

lemma natToString_no_sign: "CHR ''-'' \<notin> set (natToString n)"
proof (induction n rule: natToString.induct)
  case (1 n)
  show ?case
  proof (cases "n < 10")
    case True
    then show ?thesis
      using digitChar_digit [of n] by (subst natToString.simps) auto
  next
    case False
    then show ?thesis
      using "1.IH" digitChar_digit [of "n mod 10"] by (subst natToString.simps) auto
  qed
qed

lemma natToString_inj: "natToString n = natToString m \<Longrightarrow> n = m"
proof (induction n arbitrary: m rule: natToString.induct)
  case (1 n)
  show ?case
  proof (cases "n < 10")
    case n: True
    show ?thesis
    proof (cases "m < 10")
      case True
      then show ?thesis
        using "1.prems" n digitChar_inj [of n m]
        by (simp add: natToString.simps [of n] natToString.simps [of m])
    next
      case False
      then show ?thesis
        using "1.prems" n natToString_nonempty [of "m div 10"]
        by (simp add: natToString.simps [of n] natToString.simps [of m] Cons_eq_append_conv)
    qed
  next
    case n: False
    show ?thesis
    proof (cases "m < 10")
      case True
      then show ?thesis
        using "1.prems" n natToString_nonempty [of "n div 10"]
        by (simp add: natToString.simps [of n] natToString.simps [of m] append_eq_Cons_conv)
    next
      case False
      with "1.prems" n have s: "natToString (n div 10) = natToString (m div 10)"
        and d: "digitChar (n mod 10) = digitChar (m mod 10)"
        by (simp_all add: natToString.simps [of n] natToString.simps [of m])
      have "n div 10 = m div 10" using "1.IH" [OF n s] .
      moreover have "n mod 10 = m mod 10" using digitChar_inj [OF _ _ d] by simp
      ultimately show ?thesis
        by (metis div_mult_mod_eq)
    qed
  qed
qed

lemma numberToString_int:
  "\<bar>i\<bar> < 2 ^ 53 \<Longrightarrow>
   numberToString toStr (of_int i) = (if i < 0 then ''-'' else []) @ natToString (nat \<bar>i\<bar>)"
proof -
  assume "\<bar>i\<bar> < 2 ^ 53"
  then have "\<bar>real_of_int i\<bar> < 2 ^ 53"
    by (metis of_int_abs of_int_less_numeral_power_cancel_iff)
  moreover have "\<lfloor>\<bar>real_of_int i\<bar>\<rfloor> = \<bar>i\<bar>"
    by (metis floor_of_int of_int_abs)
  ultimately show ?thesis
    by (simp add: numberToString_def)
qed

lemma numberToString_int_inj:
  assumes "\<bar>i\<bar> < 2 ^ 53" and "\<bar>j\<bar> < 2 ^ 53"
    and "numberToString toStr (of_int i) = numberToString toStr (of_int j)"
  shows "i = j"
proof -
  have e: "(if i < 0 then ''-'' else []) @ natToString (nat \<bar>i\<bar>) =
      (if j < 0 then ''-'' else []) @ natToString (nat \<bar>j\<bar>)"
    using assms by (simp add: numberToString_int)
  show ?thesis
  proof (cases "i < 0"; cases "j < 0")
    assume "i < 0" "j < 0"
    with e have "nat \<bar>i\<bar> = nat \<bar>j\<bar>" by (simp add: natToString_inj)
    with \<open>i < 0\<close> \<open>j < 0\<close> show ?thesis by simp
  next
    assume "i < 0" "\<not> j < 0"
    with e have "CHR ''-'' # natToString (nat \<bar>i\<bar>) = natToString (nat \<bar>j\<bar>)"
      by simp
    then have "CHR ''-'' \<in> set (natToString (nat \<bar>j\<bar>))"
      by (rule subst [where P = "\<lambda>l. CHR ''-'' \<in> set l"]) simp
    then show ?thesis using natToString_no_sign by blast
  next
    assume "\<not> i < 0" "j < 0"
    with e have "CHR ''-'' # natToString (nat \<bar>j\<bar>) = natToString (nat \<bar>i\<bar>)"
      by simp
    then have "CHR ''-'' \<in> set (natToString (nat \<bar>i\<bar>))"
      by (rule subst [where P = "\<lambda>l. CHR ''-'' \<in> set l"]) simp
    then show ?thesis using natToString_no_sign by blast
  next
    assume "\<not> i < 0" "\<not> j < 0"
    with e have "nat \<bar>i\<bar> = nat \<bar>j\<bar>" by (simp add: natToString_inj)
    with \<open>\<not> i < 0\<close> \<open>\<not> j < 0\<close> show ?thesis by simp
  qed
qed

lemma alertMessage_int_inj:
  "\<bar>i\<bar> < 2 ^ 53 \<Longrightarrow> \<bar>j\<bar> < 2 ^ 53 \<Longrightarrow> i \<noteq> j \<Longrightarrow>
   alertMessage toStr metricName type (of_int i) \<noteq> alertMessage toStr metricName type (of_int j)"
  using numberToString_int_inj [of i j toStr] by (auto simp: alertMessage_def)

text \<open>
  The two operations that change the alerts outside the loop keep them pairwise
  different in message or severity.
\<close>

lemma toggleSimData_distinct:
  "distinct (map alertKey (alerts sd)) \<Longrightarrow>
   distinct (map alertKey (alerts (toggleSimData newId date sd)))"
  by (auto simp: toggleSimData_def Let_def list_ex_iff alertKey_def distinct_map_filter)

lemma feedbackSimData_distinct:
  "distinct (map alertKey (alerts sd)) \<Longrightarrow>
   distinct (map alertKey (alerts (feedbackSimData patientId feedbackType alertSeverity env sd)))"
  by (auto simp: feedbackSimData_def Let_def distinct_map_filter)

text \<open>
  C4 (as the code has it). For an entry whose alerts differ pairwise in message or
  severity (as in a fresh entry, which has none), after any number of low-frequency
  ticks they still do: at most one active alert exists for each message and severity,
  since \<^verbatim>\<open>checkAlert\<close> inserts nothing while an alert with the identical message and
  severity is present. The ticks only append: the alerts that were there stay, in
  their places. After a tick in which a heart-rate or SpO2 check triggers, exactly one
  alert with the message of that check and its severity exists, and this remains so
  after any further ticks. The message contains the value, and different integer values
  (of absolute value below \<open>2\<^sup>5\<^sup>3\<close>) give different messages.
\<close>

theorem alerts_deduplicated:
  assumes "distinct (map alertKey (alerts sd))"
  shows "distinct (map alertKey (alerts (vitalsRun toStr ticks sd))) \<and>
     countAlerts msg sev (alerts (vitalsRun toStr ticks sd)) \<le> 1 \<and>
     take (length (alerts sd)) (alerts (vitalsRun toStr ticks sd)) = alerts sd \<and>
     (list_ex (\<lambda>a. message a = alertMessage toStr metricName type v \<and> severity a = sev) as \<longrightarrow>
        checkAlert toStr metricName v gt pt sev type newId date as = as) \<and>
     (isTriggered (heartRate (metrics (vitalsStep toStr patient env (vitalsRun toStr ticks sd))))
        ALERT_THRESHOLDS_HEART_RATE (Option.bind (personalizedThresholds patient) heartRateT)
        sev type \<longrightarrow>
      countAlerts
        (alertMessage toStr ''Heart Rate'' type
           (heartRate (metrics (vitalsStep toStr patient env (vitalsRun toStr ticks sd)))))
        sev
        (alerts (vitalsRun toStr later (vitalsStep toStr patient env (vitalsRun toStr ticks sd)))) =
        1) \<and>
     (isTriggered (spo2 (metrics (vitalsStep toStr patient env (vitalsRun toStr ticks sd))))
        ALERT_THRESHOLDS_SPO2 (Option.bind (personalizedThresholds patient) spo2T) sev low \<longrightarrow>
      countAlerts
        (alertMessage toStr SpO2_name low
           (spo2 (metrics (vitalsStep toStr patient env (vitalsRun toStr ticks sd)))))
        sev
        (alerts (vitalsRun toStr later (vitalsStep toStr patient env (vitalsRun toStr ticks sd)))) =
        1) \<and>
     (\<bar>i\<bar> < 2 ^ 53 \<and> \<bar>j\<bar> < 2 ^ 53 \<and> i \<noteq> j \<longrightarrow>
        alertMessage toStr metricName type (of_int i) \<noteq>
        alertMessage toStr metricName type (of_int j))"
proof -
  let ?s = "vitalsRun toStr ticks sd"
  let ?t = "vitalsStep toStr patient env ?s"
  let ?u = "vitalsRun toStr later ?t"
  have d: "distinct (map alertKey (alerts ?s))"
    using assms by (rule vitalsRun_distinct)
  have "distinct (map alertKey (alerts ?t))"
    using d by (simp add: vitalsStep_alerts evaluateAlerts_distinct)
  then have du: "distinct (map alertKey (alerts ?u))"
    by (rule vitalsRun_distinct)
  have c: "countAlerts msg sev (alerts ?s) \<le> 1"
    using d by (simp add: countAlerts_distinct)
  have keep: "k \<in> set (map alertKey (alerts ?t)) \<Longrightarrow> k \<in> set (map alertKey (alerts ?u))" for k
    using vitalsRun_keeps [of ?t toStr later] by blast
  have hr: "countAlerts (alertMessage toStr ''Heart Rate'' type (heartRate (metrics ?t))) sev
      (alerts ?u) = 1"
    if "isTriggered (heartRate (metrics ?t)) ALERT_THRESHOLDS_HEART_RATE
          (Option.bind (personalizedThresholds patient) heartRateT) sev type"
  proof -
    have "(alertMessage toStr ''Heart Rate'' type (heartRate (metrics ?t)), sev) \<in>
        set (map alertKey (alerts ?t))"
      by (subst vitalsStep_alerts) (rule evaluateAlerts_heart_rate [OF that])
    from keep [OF this] show ?thesis
      by (simp add: countAlerts_distinct [OF du])
  qed
  have sp: "countAlerts (alertMessage toStr SpO2_name low (spo2 (metrics ?t))) sev
      (alerts ?u) = 1"
    if "isTriggered (spo2 (metrics ?t)) ALERT_THRESHOLDS_SPO2
          (Option.bind (personalizedThresholds patient) spo2T) sev low"
  proof -
    have "(alertMessage toStr SpO2_name low (spo2 (metrics ?t)), sev) \<in>
        set (map alertKey (alerts ?t))"
      by (subst vitalsStep_alerts) (rule evaluateAlerts_spo2 [OF that])
    from keep [OF this] show ?thesis
      by (simp add: countAlerts_distinct [OF du])
  qed
  show ?thesis
    using d c hr sp vitalsRun_prefix [of sd toStr ticks]
      checkAlert_guard [of toStr metricName type v sev as gt pt newId date]
      alertMessage_int_inj [of i j toStr metricName type]
    by simp
qed

lemma vitalsRun_append: "vitalsRun toStr (xs @ ys) sd = vitalsRun toStr ys (vitalsRun toStr xs sd)"
  by (induction xs arbitrary: sd) auto

lemma updateMetrics_rate:
  "heartRate (updateMetrics patient env sd) =
     heartRate (metrics sd) +
       sgn (currentTargetHeartRate sd - heartRate (metrics sd)) *
       min \<bar>currentTargetHeartRate sd - heartRate (metrics sd)\<bar> 2"
  "spo2 (updateMetrics patient env sd) =
     (if isLethal (RHYTHM_PARAMS (activeRhythm patient)) then 0 else spo2 (metrics sd))"
  by (simp_all add: updateMetrics_def Let_def)

lemma vitalsStep_fields:
  "metrics (vitalsStep toStr patient env sd) = updateMetrics patient env sd"
  "currentTargetHeartRate (vitalsStep toStr patient env sd) = currentTargetHeartRate sd"
  by (simp_all add: vitalsStep_def Let_def)

lemma heart_rate_not_triggered:
  "50 \<le> h \<Longrightarrow> h \<le> 110 \<Longrightarrow> \<not> isTriggered h ALERT_THRESHOLDS_HEART_RATE None sev type"
  by (cases sev; cases type)
    (simp_all add: isTriggered_def alertThreshold_def nullish_def ALERT_THRESHOLDS_HEART_RATE_def)

lemma heart_rate_low_warning:
  "40 \<le> h \<Longrightarrow> h < 50 \<Longrightarrow>
   isTriggered h ALERT_THRESHOLDS_HEART_RATE None sev type \<longleftrightarrow> sev = WARNING \<and> type = low"
  by (cases sev; cases type)
    (simp_all add: isTriggered_def alertThreshold_def nullish_def ALERT_THRESHOLDS_HEART_RATE_def)

lemma spo2_not_triggered: "\<not> isTriggered 98 ALERT_THRESHOLDS_SPO2 None sev low"
  by (cases sev)
    (simp_all add: isTriggered_def alertThreshold_def nullish_def ALERT_THRESHOLDS_SPO2_def)

lemma evaluateAlerts_quiet:
  "personalizedThresholds patient = None \<Longrightarrow> 50 \<le> heartRate m \<Longrightarrow> heartRate m \<le> 110 \<Longrightarrow>
   spo2 m = 98 \<Longrightarrow> evaluateAlerts toStr patient m env as = as"
  by (simp add: evaluateAlerts_def Let_def checkAlert_def heart_rate_not_triggered
      spo2_not_triggered)

lemma evaluateAlerts_low_warning:
  "personalizedThresholds patient = None \<Longrightarrow> 40 \<le> heartRate m \<Longrightarrow> heartRate m < 50 \<Longrightarrow>
   spo2 m = 98 \<Longrightarrow>
   evaluateAlerts toStr patient m env as =
     checkAlert toStr ''Heart Rate'' (heartRate m) ALERT_THRESHOLDS_HEART_RATE None WARNING low
       (randomUUID env 1) (newDate env 1) as"
  by (simp add: evaluateAlerts_def Let_def spo2_not_triggered heart_rate_low_warning
      checkAlert_def [of _ "''Heart Rate''" _ _ _ CRITICAL]
      checkAlert_def [of _ "''Heart Rate''" _ _ _ WARNING high]
      checkAlert_def [of _ SpO2_name])

lemma blockPatient_fields:
  "personalizedThresholds blockPatient = None"
  "activeRhythm blockPatient = THIRD_DEGREE_AV_BLOCK"
  by (simp_all add: blockPatient_def examplePatient_fields)

lemma vitalsStep_descend:
  assumes "currentTargetHeartRate sd = 40" and "52 \<le> heartRate (metrics sd)"
    and "heartRate (metrics sd) \<le> 110" and "spo2 (metrics sd) = 98"
  shows "currentTargetHeartRate (vitalsStep toStr blockPatient env sd) = 40 \<and>
     heartRate (metrics (vitalsStep toStr blockPatient env sd)) = heartRate (metrics sd) - 2 \<and>
     spo2 (metrics (vitalsStep toStr blockPatient env sd)) = 98 \<and>
     alerts (vitalsStep toStr blockPatient env sd) = alerts sd"
proof -
  have h: "heartRate (updateMetrics blockPatient env sd) = heartRate (metrics sd) - 2"
    using assms by (simp add: updateMetrics_rate sgn_if)
  have s: "spo2 (updateMetrics blockPatient env sd) = 98"
    using assms by (simp add: updateMetrics_rate blockPatient_fields)
  show ?thesis
    using assms h s
    by (simp add: vitalsStep_alerts vitalsStep_fields evaluateAlerts_quiet blockPatient_fields)
qed

lemma vitalsRun_descend:
  "currentTargetHeartRate sd = 40 \<Longrightarrow> 50 + 2 * real k \<le> heartRate (metrics sd) \<Longrightarrow>
   heartRate (metrics sd) \<le> 110 \<Longrightarrow> spo2 (metrics sd) = 98 \<Longrightarrow>
   currentTargetHeartRate (vitalsRun toStr (replicate k (blockPatient, env)) sd) = 40 \<and>
   heartRate (metrics (vitalsRun toStr (replicate k (blockPatient, env)) sd)) =
     heartRate (metrics sd) - 2 * real k \<and>
   spo2 (metrics (vitalsRun toStr (replicate k (blockPatient, env)) sd)) = 98 \<and>
   alerts (vitalsRun toStr (replicate k (blockPatient, env)) sd) = alerts sd"
proof (induction k arbitrary: sd)
  case 0
  then show ?case by simp
next
  case (Suc k)
  have "52 \<le> heartRate (metrics sd)" using Suc.prems(2) by simp
  note step = vitalsStep_descend [OF Suc.prems(1) this Suc.prems(3) Suc.prems(4), where env = env and toStr = toStr]
  have "50 + 2 * real k \<le> heartRate (metrics (vitalsStep toStr blockPatient env sd))"
    using step Suc.prems(2) by simp
  moreover have "heartRate (metrics (vitalsStep toStr blockPatient env sd)) \<le> 110"
    using step Suc.prems(3) by simp
  ultimately show ?case
    using Suc.IH [of "vitalsStep toStr blockPatient env sd"] step by (simp add: algebra_simps)
qed

lemma vitalsStep_warn:
  assumes "currentTargetHeartRate sd = 40" and "42 \<le> heartRate (metrics sd)"
    and "heartRate (metrics sd) < 52" and "spo2 (metrics sd) = 98"
  shows "currentTargetHeartRate (vitalsStep toStr blockPatient env sd) = 40 \<and>
     heartRate (metrics (vitalsStep toStr blockPatient env sd)) = heartRate (metrics sd) - 2 \<and>
     spo2 (metrics (vitalsStep toStr blockPatient env sd)) = 98 \<and>
     alerts (vitalsStep toStr blockPatient env sd) =
       checkAlert toStr ''Heart Rate'' (heartRate (metrics sd) - 2) ALERT_THRESHOLDS_HEART_RATE None
         WARNING low (randomUUID env 1) (newDate env 1) (alerts sd)"
proof -
  have h: "heartRate (updateMetrics blockPatient env sd) = heartRate (metrics sd) - 2"
    using assms by (simp add: updateMetrics_rate sgn_if)
  have s: "spo2 (updateMetrics blockPatient env sd) = 98"
    using assms by (simp add: updateMetrics_rate blockPatient_fields)
  show ?thesis
    using assms h s
    by (simp add: vitalsStep_alerts vitalsStep_fields evaluateAlerts_low_warning
        blockPatient_fields)
qed

lemma natToString_two_digits:
  "natToString 48 = ''48''" "natToString 46 = ''46''"
  by (simp_all add: natToString.simps [of 48] natToString.simps [of 46] natToString.simps [of 4]
      digitChar_def)

lemma numberToString_two_digits:
  "numberToString toStr 48 = ''48''" "numberToString toStr 46 = ''46''"
  by (simp_all add: numberToString_def natToString_two_digits)

lemma natToString_small:
  "natToString (Suc 0) = ''1''" "natToString 11 = ''11''"
  by (simp_all add: natToString.simps [of "Suc 0"] natToString.simps [of 11] digitChar_def)

lemma env_ids:
  "randomUUID exampleEnv (Suc 0) = ''uuid-1''" "randomUUID laterEnv (Suc 0) = ''uuid-11''"
  "newDate laterEnv k = 2000"
  by (simp_all add: exampleEnv_def laterEnv_def natToString_small)

lemma blockEntry_fields:
  "currentTargetHeartRate blockEntry = 40"
  "heartRate (metrics blockEntry) = 64"
  "spo2 (metrics blockEntry) = 98"
  "alerts blockEntry = []"
  by (simp_all add: blockEntry_def exampleSimData_fields exampleSimData_timing)
    (simp add: exampleSimData_def createInitialPatientSimData_def Let_def getDefaultMetrics_def)

lemma after_seven:
  "currentTargetHeartRate (vitalsRun toStr (replicate 7 (blockPatient, exampleEnv)) blockEntry) = 40 \<and>
   heartRate (metrics (vitalsRun toStr (replicate 7 (blockPatient, exampleEnv)) blockEntry)) = 50 \<and>
   spo2 (metrics (vitalsRun toStr (replicate 7 (blockPatient, exampleEnv)) blockEntry)) = 98 \<and>
   alerts (vitalsRun toStr (replicate 7 (blockPatient, exampleEnv)) blockEntry) = []"
  using vitalsRun_descend [where sd = blockEntry and k = 7 and env = exampleEnv and toStr = toStr] by (simp add: blockEntry_fields)

lemma after_eight:
  "currentTargetHeartRate (vitalsRun toStr eightTicks blockEntry) = 40 \<and>
   heartRate (metrics (vitalsRun toStr eightTicks blockEntry)) = 48 \<and>
   spo2 (metrics (vitalsRun toStr eightTicks blockEntry)) = 98 \<and>
   alerts (vitalsRun toStr eightTicks blockEntry) =
     [\<lparr>idA = ''uuid-1'', message = ''Heart Rate Low: 48'', severity = WARNING, timestamp = 1000,
       metric = ''Heart Rate''\<rparr>]"
proof -
  have e: "eightTicks = replicate 7 (blockPatient, exampleEnv) @ [(blockPatient, exampleEnv)]"
    unfolding eightTicks_def by (simp add: numeral_eq_Suc replicate_append_same)
  have t: "isTriggered 48 ALERT_THRESHOLDS_HEART_RATE None WARNING low"
    by (simp add: heart_rate_low_warning)
  show ?thesis
    using after_seven [of toStr]
      vitalsStep_warn [where sd = "vitalsRun toStr (replicate 7 (blockPatient, exampleEnv)) blockEntry"
          and env = exampleEnv and toStr = toStr]
    by (simp add: e vitalsRun_append checkAlert_def t alertMessage_def numberToString_two_digits
        env_ids exampleEnv_fields)
qed

lemma after_nine:
  "heartRate (metrics (vitalsStep toStr blockPatient laterEnv (vitalsRun toStr eightTicks blockEntry))) = 46 \<and>
   alerts (vitalsStep toStr blockPatient laterEnv (vitalsRun toStr eightTicks blockEntry)) =
     [\<lparr>idA = ''uuid-1'', message = ''Heart Rate Low: 48'', severity = WARNING, timestamp = 1000,
       metric = ''Heart Rate''\<rparr>,
      \<lparr>idA = ''uuid-11'', message = ''Heart Rate Low: 46'', severity = WARNING, timestamp = 2000,
       metric = ''Heart Rate''\<rparr>]"
proof -
  have t: "isTriggered 46 ALERT_THRESHOLDS_HEART_RATE None WARNING low"
    by (simp add: heart_rate_low_warning)
  show ?thesis
    using after_eight [of toStr]
      vitalsStep_warn [where sd = "vitalsRun toStr eightTicks blockEntry" and env = laterEnv
          and toStr = toStr]
    by (simp add: checkAlert_def t alertMessage_def numberToString_two_digits env_ids)
qed

text \<open>
  C4 as stated fails when the value changes while the condition holds: after the rhythm
  of the example patient is set to third-degree AV block, the displayed heart rate falls
  by 2 per tick; the eighth tick raises the warning for 48 and the ninth tick raises a
  second warning, for 46, for the same metric, severity and direction.
\<close>

theorem one_alert_per_condition_counterexample:
  "patients (setPatientRhythm ''PID00123'' THIRD_DEGREE_AV_BLOCK (1/2) oneEntry) = [blockPatient] \<and>
   simulationDataMap (setPatientRhythm ''PID00123'' THIRD_DEGREE_AV_BLOCK (1/2) oneEntry) =
     [(''PID00123'', blockEntry)] \<and>
   heartRate (metrics (vitalsRun exampleToString eightTicks blockEntry)) = 48 \<and>
   isTriggered 48 ALERT_THRESHOLDS_HEART_RATE None WARNING low \<and>
   heartRate (metrics (vitalsStep exampleToString blockPatient laterEnv (vitalsRun exampleToString eightTicks blockEntry))) = 46 \<and>
   isTriggered 46 ALERT_THRESHOLDS_HEART_RATE None WARNING low \<and>
   map (\<lambda>a. (metric a, message a, severity a))
     (alerts (vitalsStep exampleToString blockPatient laterEnv (vitalsRun exampleToString eightTicks blockEntry))) =
     [(''Heart Rate'', ''Heart Rate Low: 48'', WARNING),
      (''Heart Rate'', ''Heart Rate Low: 46'', WARNING)]"
  using after_eight [of exampleToString] after_nine [of exampleToString]
  by (simp add: heart_rate_low_warning setPatientRhythm_def oneEntry_def withSimData_def
      blockPatient_def blockEntry_def examplePatient_fields)

lemma vtEntry_vitals:
  "alerts vtEntry = []"
  "spo2 (metrics (vitalsStep toStr vtPatient exampleEnv vtEntry)) = 0"
  "personalizedThresholds vtPatient = None"
  by (simp_all add: vtEntry_def createInitialPatientSimData_def Let_def vitalsStep_fields
      updateMetrics_rate vtPatient_fields vtPatient_def examplePatient_fields)

lemma eightTicks_split:
  "vitalsRun toStr eightTicks sd =
     vitalsStep toStr blockPatient exampleEnv
       (vitalsRun toStr (replicate 7 (blockPatient, exampleEnv)) sd)"
proof -
  have e: "eightTicks = replicate 7 (blockPatient, exampleEnv) @ [(blockPatient, exampleEnv)]"
    unfolding eightTicks_def by (simp add: numeral_eq_Suc replicate_append_same)
  show ?thesis by (subst e) (simp add: vitalsRun_append)
qed

theorem alerts_deduplicated_witness:
  "distinct (map alertKey (alerts blockEntry)) \<and>
   heartRate (metrics (vitalsRun exampleToString eightTicks blockEntry)) = 48 \<and>
   isTriggered 48 ALERT_THRESHOLDS_HEART_RATE
     (Option.bind (personalizedThresholds blockPatient) heartRateT) WARNING low \<and>
   countAlerts ''Heart Rate Low: 48'' WARNING
     (alerts (vitalsRun exampleToString [(blockPatient, laterEnv)]
        (vitalsRun exampleToString eightTicks blockEntry))) = 1 \<and>
   heartRate (metrics (vitalsStep exampleToString blockPatient laterEnv
     (vitalsRun exampleToString eightTicks blockEntry))) = 46 \<and>
   isTriggered 46 ALERT_THRESHOLDS_HEART_RATE
     (Option.bind (personalizedThresholds blockPatient) heartRateT) WARNING low \<and>
   countAlerts ''Heart Rate Low: 46'' WARNING
     (alerts (vitalsStep exampleToString blockPatient laterEnv
        (vitalsRun exampleToString eightTicks blockEntry))) = 1 \<and>
   countAlerts ''Heart Rate Low: 48'' WARNING
     (alerts (vitalsRun exampleToString eightTicks blockEntry)) \<le> 1 \<and>
   distinct (map alertKey (alerts (vitalsRun exampleToString eightTicks blockEntry))) \<and>
   take (length (alerts (vitalsRun exampleToString eightTicks blockEntry)))
     (alerts (vitalsRun exampleToString [(blockPatient, laterEnv)]
        (vitalsRun exampleToString eightTicks blockEntry))) =
     alerts (vitalsRun exampleToString eightTicks blockEntry) \<and>
   length (alerts (vitalsRun exampleToString eightTicks blockEntry)) = 1 \<and>
   list_ex (\<lambda>a. message a = alertMessage exampleToString ''Heart Rate'' low 48 \<and>
       severity a = WARNING)
     (alerts (vitalsRun exampleToString eightTicks blockEntry)) \<and>
   checkAlert exampleToString ''Heart Rate'' 48 ALERT_THRESHOLDS_HEART_RATE None WARNING low
     ''uuid-21'' 3000 (alerts (vitalsRun exampleToString eightTicks blockEntry)) =
     alerts (vitalsRun exampleToString eightTicks blockEntry) \<and>
   \<bar>48 :: int\<bar> < 2 ^ 53 \<and> \<bar>46 :: int\<bar> < 2 ^ 53 \<and> (48 :: int) \<noteq> 46 \<and>
   alertMessage exampleToString ''Heart Rate'' low 48 \<noteq>
     alertMessage exampleToString ''Heart Rate'' low 46 \<and>
   distinct (map alertKey (alerts vtEntry)) \<and>
   isTriggered 0 ALERT_THRESHOLDS_SPO2 (Option.bind (personalizedThresholds vtPatient) spo2T)
     CRITICAL low \<and>
   countAlerts (alertMessage exampleToString SpO2_name low 0) CRITICAL
     (alerts (vitalsStep exampleToString vtPatient exampleEnv vtEntry)) = 1"
proof -
  let ?eight = "vitalsRun exampleToString eightTicks blockEntry"
  have b: "distinct (map alertKey (alerts blockEntry))"
    by (simp add: blockEntry_fields)
  have e: "distinct (map alertKey (alerts ?eight))"
    using after_eight [of exampleToString] by simp
  have v: "distinct (map alertKey (alerts vtEntry))"
    by (simp add: vtEntry_vitals)
  have s: "isTriggered 0 ALERT_THRESHOLDS_SPO2 None CRITICAL low"
    by (simp add: isTriggered_def alertThreshold_def nullish_def ALERT_THRESHOLDS_SPO2_def)
  note first = alerts_deduplicated [OF b, where toStr = exampleToString
      and ticks = "replicate 7 (blockPatient, exampleEnv)" and patient = blockPatient
      and env = exampleEnv and later = "[(blockPatient, laterEnv)]" and sev = WARNING
      and type = low and i = 48 and j = 46 and metricName = "''Heart Rate''"]
  note second = alerts_deduplicated [OF b, where toStr = exampleToString
      and ticks = eightTicks and msg = "''Heart Rate Low: 48''" and sev = WARNING
      and metricName = "''Heart Rate''" and type = low and v = 48 and as = "alerts ?eight"
      and gt = ALERT_THRESHOLDS_HEART_RATE and pt = None and newId = "''uuid-21''"
      and date = 3000 and patient = blockPatient and env = laterEnv and later = "[]"]
  note third = alerts_deduplicated [OF e, where toStr = exampleToString
      and ticks = "[(blockPatient, laterEnv)]"]
  note fourth = alerts_deduplicated [OF v, where toStr = exampleToString and ticks = "[]"
      and sev = CRITICAL and patient = vtPatient and env = exampleEnv and later = "[]"]
  show ?thesis
    using b v s after_eight [of exampleToString] after_nine [of exampleToString]
      first second third fourth
    by (simp add: heart_rate_low_warning blockPatient_fields vtEntry_vitals alertMessage_def
        numberToString_two_digits eightTicks_split [symmetric])
qed

end
